theory Spec2Isabelle
  imports Main
begin

section \<open>Python values\<close>

text \<open>
  A Python \<open>str\<close> is a \<open>string\<close>: one 8-bit character per code point, so the model
  covers the code points below U+0100 (ASCII and Latin-1, which holds every literal of
  the code modelled here). The exceptions that the source files raise, catch or let
  escape are values of \<open>exn\<close>; a call that may raise returns \<open>exn + 'a\<close>.
  \<open>EchecTentatives\<close> is the \<open>Exception\<close> raised at line 456, \<open>OtherException\<close> any
  exception without a name of its own here.
\<close>

datatype exn =
    AttributeError
  | KeyError
  | TypeError
  | ValueError
  | JSONDecodeError
  | FileNotFoundError
  | RequestException
  | OtherException
  | EchecTentatives

text \<open>\<open>str.lower()\<close> on the code points below U+0100: A-Z and the accented capitals
  U+00C0..U+00DE (without the multiplication sign U+00D7) move up by 32.\<close>

definition lower_char :: "char \<Rightarrow> char" where
  "lower_char c =
     (let n = (of_char c :: nat)
      in if (65 \<le> n \<and> n \<le> 90) \<or> (192 \<le> n \<and> n \<le> 222 \<and> n \<noteq> 215)
         then char_of (n + 32) else c)"

definition lower :: "string \<Rightarrow> string" where
  "lower s = map lower_char s"

section \<open>The send log (sender.py)\<close>

text \<open>
  The file \<open>CHEMIN_SUIVI\<close> is \<open>None\<close> while it does not exist, and otherwise the list
  of its CSV rows, the header row first, each row the list of its fields as the \<open>csv\<close>
  writer was given them. Faults of the operating system while the file is open are not
  modelled.
\<close>

type_synonym csv_file = "string list list"

text \<open>A \<open>dict\<close> with string keys whose values are strings or \<open>None\<close>, as the list of its
  bindings; a key bound twice has its last value, as in \<open>dict(zip(...))\<close>.
  \<open>py_get d key defaut\<close> is \<open>d.get(key, defaut)\<close>.\<close>

type_synonym py_dict = "(string \<times> string option) list"

type_synonym dict_row = py_dict

definition py_get :: "py_dict \<Rightarrow> string \<Rightarrow> string \<Rightarrow> string option" where
  "py_get d key defaut = (case map_of (rev d) key of None \<Rightarrow> Some defaut | Some v \<Rightarrow> v)"

definition entete_suivi :: "string list" where
  "entete_suivi = [''email'', ''nom_entreprise'', ''date_envoi'']"

text \<open>The writers open their file with \<open>newline=''\<close> (lines 483 and 506) and write every
  field unchanged. The readers open theirs in text mode without it (lines 489 and 754):
  before the \<open>csv\<close> reader sees the text, Python's universal newlines turn every CR LF
  and every other CR into LF, also inside a quoted field.\<close>

fun universal_newlines :: "string \<Rightarrow> string" where
  "universal_newlines [] = []"
| "universal_newlines [c] = (if c = CHR 0x0D then [CHR 0x0A] else [c])"
| "universal_newlines (c # d # s) =
     (if c = CHR 0x0D \<and> d = CHR 0x0A then CHR 0x0A # universal_newlines s
      else if c = CHR 0x0D then CHR 0x0A # universal_newlines (d # s)
      else c # universal_newlines (d # s))"

text \<open>\<open>csv.DictReader\<close>: the first row gives the field names, empty rows are skipped,
  a short row is filled with \<open>None\<close> and the fields beyond the header are set aside.
  \<open>lire_csv\<close> is the reader on a file opened in text mode.\<close>

definition dict_row :: "string list \<Rightarrow> string list \<Rightarrow> dict_row" where
  "dict_row fieldnames row =
     zip fieldnames (map Some row @ replicate (length fieldnames - length row) None)"

fun dict_reader :: "csv_file \<Rightarrow> dict_row list" where
  "dict_reader [] = []"
| "dict_reader (fieldnames # rows) = map (dict_row fieldnames) (filter (\<lambda>r. r \<noteq> []) rows)"

definition lire_csv :: "csv_file \<Rightarrow> dict_row list" where
  "lire_csv fichier = dict_reader (map (map universal_newlines) fichier)"

text \<open>\<open>row[key].lower()\<close>: \<open>KeyError\<close> without the column, \<open>AttributeError\<close> on \<open>None\<close>.\<close>

definition getitem_lower :: "dict_row \<Rightarrow> string \<Rightarrow> exn + string" where
  "getitem_lower row key =
     (case map_of (rev row) key of
        None \<Rightarrow> Inl KeyError
      | Some None \<Rightarrow> Inl AttributeError
      | Some (Some v) \<Rightarrow> Inr (lower v))"

text \<open>The condition of line 492; \<open>or\<close> evaluates its right operand only when the left one
  is false. The company name is the title column of an input row and is \<open>None\<close> when
  that row is short; \<open>nom_entreprise.lower()\<close> then raises \<open>AttributeError\<close>.\<close>

definition ligne_correspond :: "dict_row \<Rightarrow> string \<Rightarrow> string option \<Rightarrow> exn + bool" where
  "ligne_correspond row email nom_entreprise =
     (case getitem_lower row ''email'' of
        Inl e \<Rightarrow> Inl e
      | Inr v \<Rightarrow>
          if v = lower email then Inr True
          else (case getitem_lower row ''nom_entreprise'' of
                  Inl e \<Rightarrow> Inl e
                | Inr w \<Rightarrow>
                    (case nom_entreprise of
                       None \<Rightarrow> Inl AttributeError
                     | Some nom \<Rightarrow> Inr (w = lower nom))))"

fun parcourir_suivi :: "dict_row list \<Rightarrow> string \<Rightarrow> string option \<Rightarrow> exn + bool" where
  "parcourir_suivi [] email nom_entreprise = Inr False"
| "parcourir_suivi (row # rows) email nom_entreprise =
     (case ligne_correspond row email nom_entreprise of
        Inl e \<Rightarrow> Inl e
      | Inr True \<Rightarrow> Inr True
      | Inr False \<Rightarrow> parcourir_suivi rows email nom_entreprise)"

text \<open>\<open>verifier_email_deja_envoye\<close> returns its answer and the file as it leaves it: a
  missing file is created with the header alone; any exception while reading gives
  \<open>False\<close>.\<close>

definition verifier_email_deja_envoye ::
  "csv_file option \<Rightarrow> string \<Rightarrow> string option \<Rightarrow> bool \<times> csv_file option" where
  "verifier_email_deja_envoye suivi email nom_entreprise =
     (case suivi of
        None \<Rightarrow> (False, Some [entete_suivi])
      | Some rows \<Rightarrow>
          ((case parcourir_suivi (lire_csv rows) email nom_entreprise of
              Inl e \<Rightarrow> False
            | Inr b \<Rightarrow> b),
           Some rows))"

text \<open>\<open>enregistrer_email_envoye\<close> appends one row, after the header when the file is new;
  \<open>date_envoi\<close> is the formatted \<open>datetime.now()\<close>. The \<open>csv\<close> writer writes \<open>None\<close> as
  the empty field.\<close>

definition champ_csv :: "string option \<Rightarrow> string" where
  "champ_csv v = (case v of None \<Rightarrow> [] | Some s \<Rightarrow> s)"

definition enregistrer_email_envoye ::
  "csv_file option \<Rightarrow> string \<Rightarrow> string option \<Rightarrow> string \<Rightarrow> bool \<times> csv_file option" where
  "enregistrer_email_envoye suivi email nom_entreprise date_envoi =
     (True,
      Some ((case suivi of None \<Rightarrow> [entete_suivi] | Some rows \<Rightarrow> rows)
            @ [[email, champ_csv nom_entreprise, date_envoi]]))"

text \<open>The states these two functions produce: no file, or the header followed by rows of
  three fields. The entries of the log are the rows after the header; \<open>entrees_lues\<close>
  are the entries as a reader in text mode sees them.\<close>

definition suivi_bien_forme :: "csv_file option \<Rightarrow> bool" where
  "suivi_bien_forme suivi =
     (case suivi of
        None \<Rightarrow> True
      | Some [] \<Rightarrow> False
      | Some (h # rows) \<Rightarrow> h = entete_suivi \<and> list_all (\<lambda>r. length r = 3) rows)"

definition entrees :: "csv_file option \<Rightarrow> string list list" where
  "entrees suivi = (case suivi of None \<Rightarrow> [] | Some rows \<Rightarrow> tl rows)"

definition entrees_lues :: "csv_file option \<Rightarrow> string list list" where
  "entrees_lues suivi = map (map universal_newlines) (entrees suivi)"

definition entree_correspond :: "string \<Rightarrow> string \<Rightarrow> string list \<Rightarrow> bool" where
  "entree_correspond email nom_entreprise r =
     (lower (r ! 0) = lower email \<or> lower (r ! 1) = lower nom_entreprise)"


section \<open>String helpers\<close>

text \<open>\<open>s.startswith(p)\<close> and \<open>sub in s\<close>.\<close>

definition startswith :: "string \<Rightarrow> string \<Rightarrow> bool" where
  "startswith s p = (take (length p) s = p)"

fun contient :: "string \<Rightarrow> string \<Rightarrow> bool" where
  "contient sub [] = (sub = [])"
| "contient sub (c # s) = (startswith (c # s) sub \<or> contient sub s)"

text \<open>A \<open>dict\<close> with string keys and values, and \<open>d.get(key, default)\<close>.\<close>

type_synonym str_dict = "(string \<times> string) list"

definition dict_get :: "str_dict \<Rightarrow> string \<Rightarrow> string \<Rightarrow> string" where
  "dict_get d key defaut = (case map_of d key of None \<Rightarrow> defaut | Some v \<Rightarrow> v)"

section \<open>The site crawler (sender.py)\<close>

text \<open>
  The traversal of \<open>crawler_site_entreprise\<close>. The network and the HTML parser are the
  environment: \<open>fetch\<close> answers a URL with \<open>RequeteEchouee\<close> when the request or the
  processing of the page raises (the inner \<open>except\<close> then moves on to the next URL), and
  otherwise with the status code and the \<open>href\<close> values of the page's links in document
  order. \<open>urlparse\<close> (scheme and host of a URL) and \<open>urljoin\<close> are the functions of
  \<open>urllib.parse\<close>; both may raise \<open>ValueError\<close>. The pauses and the snippets collected
  for the prompt do not steer the traversal and are left out. A Python \<open>set\<close> is a
  list without repetition, walked in insertion order.
\<close>

datatype reponse = RequeteEchouee | Reponse int "string list"

record urllib =
  urlparse :: "string \<Rightarrow> exn + (string \<times> string)"
  urljoin :: "string \<Rightarrow> string \<Rightarrow> exn + string"

record crawler_config =
  max_depth :: int
  max_pages :: int

definition mots_cles :: "string list" where
  "mots_cles =
     [''a-propos'', ''qui-sommes-nous'', ''about'', ''entreprise'', ''presentation'', ''societe'',
      ''valeurs'', ''values'', ''notre-mission'', ''mission'', ''vision'', ''philosophie'',
      ''expertise'', ''competences'', ''services'', ''solutions'', ''offres'', ''savoir-faire'',
      ''projets'', ''realisations'', ''portfolio'', ''references'', ''clients'']"

definition set_add :: "string \<Rightarrow> string list \<Rightarrow> string list" where
  "set_add x xs = (if x \<in> set xs then xs else xs @ [x])"

text \<open>The loop over the links of one page (lines 266 to 275); an exception of
  \<open>urljoin\<close> or \<open>urlparse\<close> leaves the page with the links queued so far.\<close>

fun suivre_liens ::
  "urllib \<Rightarrow> string \<Rightarrow> string \<Rightarrow> string list \<Rightarrow> string list \<Rightarrow> string list \<Rightarrow> string list" where
  "suivre_liens lib base_url netloc visited_urls [] next_depth_urls = next_depth_urls"
| "suivre_liens lib base_url netloc visited_urls (href # links) next_depth_urls =
     (if startswith href ''/'' \<or> (startswith href base_url \<and> \<not> startswith href ''#'')
      then (case urljoin lib base_url href of
              Inl e \<Rightarrow> next_depth_urls
            | Inr full_url \<Rightarrow>
                (case urlparse lib full_url of
                   Inl e \<Rightarrow> next_depth_urls
                 | Inr (scheme, host) \<Rightarrow>
                     if host = netloc \<and> full_url \<notin> set visited_urls
                        \<and> list_ex (\<lambda>keyword. contient keyword (lower full_url)) mots_cles
                     then suivre_liens lib base_url netloc visited_urls links
                            (set_add full_url next_depth_urls)
                     else suivre_liens lib base_url netloc visited_urls links next_depth_urls))
      else suivre_liens lib base_url netloc visited_urls links next_depth_urls)"

text \<open>The \<open>for\<close> loop over the URLs of one depth level (lines 172 to 279): it visits every
  URL of the level that is not yet visited.\<close>

fun parcourir_niveau ::
  "urllib \<Rightarrow> (string \<Rightarrow> reponse) \<Rightarrow> crawler_config \<Rightarrow> string \<Rightarrow> string \<Rightarrow> int \<Rightarrow>
   string list \<Rightarrow> string list \<times> string list \<Rightarrow> string list \<times> string list" where
  "parcourir_niveau lib fetch cfg base_url netloc depth [] (visited_urls, next_depth_urls) =
     (visited_urls, next_depth_urls)"
| "parcourir_niveau lib fetch cfg base_url netloc depth (current_url # urls)
     (visited_urls, next_depth_urls) =
     (if current_url \<in> set visited_urls
      then parcourir_niveau lib fetch cfg base_url netloc depth urls (visited_urls, next_depth_urls)
      else
        (let visited_urls = visited_urls @ [current_url]
         in case fetch current_url of
              RequeteEchouee \<Rightarrow>
                parcourir_niveau lib fetch cfg base_url netloc depth urls
                  (visited_urls, next_depth_urls)
            | Reponse status_code links \<Rightarrow>
                if status_code \<noteq> 200
                then parcourir_niveau lib fetch cfg base_url netloc depth urls
                       (visited_urls, next_depth_urls)
                else if depth < max_depth cfg - 1
                then parcourir_niveau lib fetch cfg base_url netloc depth urls
                       (visited_urls,
                        suivre_liens lib base_url netloc visited_urls links next_depth_urls)
                else parcourir_niveau lib fetch cfg base_url netloc depth urls
                       (visited_urls, next_depth_urls)))"

text \<open>The \<open>while\<close> loop of line 171; its result here is \<open>visited_urls\<close>, the pages
  requested, in the order of the requests.\<close>

function boucle_crawl ::
  "urllib \<Rightarrow> (string \<Rightarrow> reponse) \<Rightarrow> crawler_config \<Rightarrow> string \<Rightarrow> string \<Rightarrow>
   string list \<Rightarrow> string list \<Rightarrow> int \<Rightarrow> string list" where
  "boucle_crawl lib fetch cfg base_url netloc visited_urls current_depth_urls depth =
     (if current_depth_urls \<noteq> [] \<and> depth < max_depth cfg
         \<and> int (length visited_urls) < max_pages cfg
      then (case parcourir_niveau lib fetch cfg base_url netloc depth current_depth_urls
                   (visited_urls, [])
            of (visited_urls', next_depth_urls) \<Rightarrow>
              boucle_crawl lib fetch cfg base_url netloc visited_urls' next_depth_urls (depth + 1))
      else visited_urls)"
  by pat_completeness auto
termination
  by (relation "measure (\<lambda>(lib, fetch, cfg, base_url, netloc, visited, current, depth).
        nat (max_depth cfg - depth))") auto

declare boucle_crawl.simps [simp del]

text \<open>\<open>crawler_site_entreprise\<close>: the pages it requests, or the \<open>ValueError\<close> of the
  \<open>urlparse\<close> call of line 147, which stands before the \<open>try\<close>.\<close>

definition crawler_site_entreprise ::
  "urllib \<Rightarrow> (string \<Rightarrow> reponse) \<Rightarrow> crawler_config \<Rightarrow> string \<Rightarrow> exn + string list" where
  "crawler_site_entreprise lib fetch cfg url =
     (if url = [] \<or> \<not> (startswith url ''http://'' \<or> startswith url ''https://'')
      then Inr []
      else (case urlparse lib url of
              Inl e \<Rightarrow> Inl e
            | Inr (scheme, netloc) \<Rightarrow>
                (let base_url = scheme @ ''://'' @ netloc
                 in Inr (boucle_crawl lib fetch cfg base_url netloc [] [base_url] 0))))"

text \<open>An instance of the environment: \<open>urllib.parse\<close> on URLs of the shape
  \<open>scheme://host/path\<close> and on links that start with one slash, and a site whose home
  page links to three pages with a keyword in their path.\<close>

definition urllib_simple :: urllib where
  "urllib_simple =
     \<lparr> urlparse = (\<lambda>u.
          let scheme = takeWhile (\<lambda>c. c \<noteq> CHR '':'') u
          in Inr (scheme,
                  takeWhile (\<lambda>c. c \<noteq> CHR ''/'' \<and> c \<noteq> CHR ''?'' \<and> c \<noteq> CHR ''#'')
                    (drop (length scheme + 3) u))),
       urljoin = (\<lambda>base href. Inr (if startswith href ''/'' then base @ href else href)) \<rparr>"

definition site_exemple :: "string \<Rightarrow> reponse" where
  "site_exemple u =
     (if u = ''https://exemple.fr''
      then Reponse 200 [''/about'', ''/services'', ''/projets'', ''/contact'']
      else Reponse 200 [])"

section \<open>Letter generation (sender.py)\<close>

text \<open>
  One pass of the retry loop of \<open>generer_lettre_motivation\<close> sees one of these answers
  of \<open>requests.post\<close>: status 200, with the letter text read from the JSON body or the
  exception raised while reading it; status 429; another status; or an exception of the
  call itself. \<open>api_post\<close> gives the answer to the request for a company at each attempt.
  \<open>nettoyer\<close> stands for \<open>nettoyer_contenu_genere\<close>, whose regular-expression rewriting
  of a successful answer is outside the claims. The pauses between attempts are not
  modelled. The company context \<open>entreprise_info\<close> is the \<open>dict\<close> built at line 768: its
  values are the columns of an input row, \<open>None\<close> where the row is short.
\<close>

datatype reponse_api =
    Statut200 "exn + string"
  | Statut429
  | AutreStatut int
  | PostLeve exn

record generation_env =
  env_urllib :: urllib
  env_fetch :: "string \<Rightarrow> reponse"
  env_crawler :: crawler_config
  api_post :: "py_dict \<Rightarrow> nat \<Rightarrow> reponse_api"
  nettoyer :: "string \<Rightarrow> string option \<Rightarrow> exn + string"
  api_max_retries :: int

text \<open>The body of the inner \<open>try\<close> (lines 424 to 444): \<open>Inr (Some t)\<close> returns the
  letter \<open>t\<close>, \<open>Inr None\<close> goes on to the next attempt, \<open>Inl e\<close> raises \<open>e\<close>.
  \<open>raise_for_status\<close> raises for the statuses 400 to 599.\<close>

definition essai_api ::
  "generation_env \<Rightarrow> string option \<Rightarrow> reponse_api \<Rightarrow> exn + string option" where
  "essai_api env nom_entreprise r =
     (case r of
        PostLeve e \<Rightarrow> Inl e
      | Statut200 (Inl e) \<Rightarrow> Inl e
      | Statut200 (Inr texte) \<Rightarrow>
          (case nettoyer env texte nom_entreprise of
             Inl e \<Rightarrow> Inl e
           | Inr texte_nettoye \<Rightarrow> Inr (Some texte_nettoye))
      | Statut429 \<Rightarrow> Inr None
      | AutreStatut status_code \<Rightarrow>
          if 400 \<le> status_code \<and> status_code < 600 then Inl RequestException else Inr None)"

text \<open>The loop \<open>for attempt in range(max_retries)\<close> with its handler for
  \<open>RequestException\<close> (lines 446 to 453) and the \<open>raise\<close> that follows the loop.\<close>

fun tentatives ::
  "generation_env \<Rightarrow> py_dict \<Rightarrow> string option \<Rightarrow> nat list \<Rightarrow> exn + string" where
  "tentatives env entreprise_info nom_entreprise [] = Inl EchecTentatives"
| "tentatives env entreprise_info nom_entreprise (attempt # attempts) =
     (case essai_api env nom_entreprise (api_post env entreprise_info attempt) of
        Inr (Some texte_nettoye) \<Rightarrow> Inr texte_nettoye
      | Inr None \<Rightarrow> tentatives env entreprise_info nom_entreprise attempts
      | Inl e \<Rightarrow>
          if e = RequestException \<and> int attempt < api_max_retries env - 1
          then tentatives env entreprise_info nom_entreprise attempts
          else Inl e)"

text \<open>The \<open>try\<close> block of \<open>generer_lettre_motivation\<close> (lines 355 to 456).\<close>

definition generer_corps :: "generation_env \<Rightarrow> py_dict \<Rightarrow> exn + string" where
  "generer_corps env entreprise_info =
     (let nom_entreprise = py_get entreprise_info ''title'' ''votre entreprise'';
          website = py_get entreprise_info ''website'' ''''
      in case (case website of
                 None \<Rightarrow> Inr []
               | Some url \<Rightarrow>
                   if url \<noteq> []
                   then crawler_site_entreprise (env_urllib env) (env_fetch env) (env_crawler env) url
                   else Inr [])
         of Inl e \<Rightarrow> Inl e
          | Inr pages \<Rightarrow>
              tentatives env entreprise_info nom_entreprise [0 ..< nat (api_max_retries env)])"

text \<open>The pre-written letter of the \<open>except\<close> block (lines 462 to 474). Its two
  parameters stand in an f-string, where \<open>None\<close> reads \<open>None\<close>.\<close>

definition str_of :: "string option \<Rightarrow> string" where
  "str_of v = (case v of None \<Rightarrow> ''None'' | Some s \<Rightarrow> s)"

definition lettre_secours_texte :: "string \<Rightarrow> string \<Rightarrow> string" where
  "lettre_secours_texte nom_entreprise categorie =
     ''Madame, Monsieur,'' @ [CHR 0x0A] @ [CHR 0x0A]
      @ ''Je me permets de vous adresser ma candidature pour un stage en d'' @ [CHR 0xE9]
      @ ''veloppement informatique au sein de '' @ nom_entreprise @ ''.'' @ [CHR 0x0A]
      @ [CHR 0x0A] @ ''Actuellement en formation de Concepteur D'' @ [CHR 0xE9]
      @ ''veloppeur d'Applications, je suis '' @ [CHR 0xE0] @ '' la recherche d'une opportunit''
      @ [CHR 0xE9]
      @ '' de stage de 4 mois (du 10 septembre 2024 au 9 janvier 2025) pour mettre en pratique mes comp''
      @ [CHR 0xE9] @ ''tences en programmation et contribuer '' @ [CHR 0xE0]
      @ '' des projets concrets. Votre entreprise m'int'' @ [CHR 0xE9] @ ''resse particuli''
      @ [CHR 0xE8] @ ''rement pour son expertise dans le domaine '' @ categorie @ ''.''
      @ [CHR 0x0A] @ [CHR 0x0A] @ ''Au cours de ma formation et de mon pr'' @ [CHR 0xE9] @ ''c''
      @ [CHR 0xE9] @ ''dent stage chez S2E Groupe, j'ai acquis des comp'' @ [CHR 0xE9]
      @ ''tences solides en d'' @ [CHR 0xE9]
      @ ''veloppement web (HTML, CSS, JavaScript, TypeScript, React) ainsi qu'en programmation Java et en cybers''
      @ [CHR 0xE9] @ ''curit'' @ [CHR 0xE9] @ ''. Cette exp'' @ [CHR 0xE9]
      @ ''rience m'a permis de d'' @ [CHR 0xE9] @ ''velopper ma capacit'' @ [CHR 0xE9] @ '' ''
      @ [CHR 0xE0] @ '' r'' @ [CHR 0xE9] @ ''soudre des probl'' @ [CHR 0xE8]
      @ ''mes complexes et '' @ [CHR 0xE0] @ '' m'adapter rapidement '' @ [CHR 0xE0] @ '' diff''
      @ [CHR 0xE9] @ ''rents environnements techniques.'' @ [CHR 0x0A] @ [CHR 0x0A]
      @ ''Je suis convaincu que mon profil correspondrait aux attentes de votre entreprise et je serais ravi de pouvoir ''
      @ [CHR 0xE9] @ ''changer avec vous lors d'un entretien pour vous pr'' @ [CHR 0xE9]
      @ ''senter plus en d'' @ [CHR 0xE9] @ ''tail mon parcours et mes motivations.''
      @ [CHR 0x0A] @ [CHR 0x0A] @ ''Vous trouverez en pi'' @ [CHR 0xE8] @ ''ce jointe mon CV d''
      @ [CHR 0xE9] @ ''taillant mon parcours et mes comp'' @ [CHR 0xE9] @ ''tences.''
      @ [CHR 0x0A] @ [CHR 0x0A]"

definition lettre_secours :: "py_dict \<Rightarrow> string" where
  "lettre_secours entreprise_info =
     lettre_secours_texte (str_of (py_get entreprise_info ''title'' ''votre entreprise''))
       (str_of (py_get entreprise_info ''category'' ''technologique''))"

text \<open>\<open>generer_lettre_motivation\<close>: \<open>except Exception\<close> turns every exception of the
  \<open>try\<close> block into the pre-written letter.\<close>

definition generer_lettre_motivation :: "generation_env \<Rightarrow> py_dict \<Rightarrow> exn + string" where
  "generer_lettre_motivation env entreprise_info =
     (case generer_corps env entreprise_info of
        Inr texte_nettoye \<Rightarrow> Inr texte_nettoye
      | Inl e \<Rightarrow> Inr (lettre_secours entreprise_info))"

text \<open>An instance of the environment in which the API gives the same answer at every
  attempt, with the default of five attempts.\<close>

definition env_exemple :: "reponse_api \<Rightarrow> generation_env" where
  "env_exemple r =
     \<lparr> env_urllib = urllib_simple, env_fetch = site_exemple,
       env_crawler = \<lparr> max_depth = 3, max_pages = 20 \<rparr>,
       api_post = (\<lambda>entreprise_info attempt. r),
       nettoyer = (\<lambda>texte nom_entreprise. Inr texte),
       api_max_retries = 5 \<rparr>"

definition acme :: py_dict where
  "acme =
     [(''title'', Some ''Acme''), (''category'', Some ''Conseil''), (''city'', Some ''Lyon''),
      (''country'', Some ''FR''), (''website'', Some ''''), (''phone'', Some '''')]"

section \<open>The outreach orchestrator (sender.py)\<close>

text \<open>\<open>str.isspace\<close> on the code points below U+0100, \<open>s.strip()\<close> and
  \<open>s.replace(old, new)\<close>; with an empty \<open>old\<close>, \<open>replace\<close> puts \<open>new\<close> before every
  character and at the end.\<close>

definition isspace :: "char \<Rightarrow> bool" where
  "isspace c =
     (let n = (of_char c :: nat)
      in (9 \<le> n \<and> n \<le> 13) \<or> (28 \<le> n \<and> n \<le> 32) \<or> n = 133 \<or> n = 160)"

definition strip :: "string \<Rightarrow> string" where
  "strip s = rev (dropWhile isspace (rev (dropWhile isspace s)))"

function remplacer :: "char \<Rightarrow> string \<Rightarrow> string \<Rightarrow> string \<Rightarrow> string" where
  "remplacer c old new [] = []"
| "remplacer c old new (x # s) =
     (if startswith (x # s) (c # old)
      then new @ remplacer c old new (drop (length old) s)
      else x # remplacer c old new s)"
  by pat_completeness auto
termination
  by (relation "measure (\<lambda>(c, old, new, s). length s)") auto

definition replace :: "string \<Rightarrow> string \<Rightarrow> string \<Rightarrow> string" where
  "replace s old new =
     (case old of
        [] \<Rightarrow> new @ concat (map (\<lambda>x. x # new) s)
      | c # old' \<Rightarrow> remplacer c old' new s)"

text \<open>
  A task is the triple built at line 781: the email, the company context and the company
  name, which is the title column of the row and so \<open>None\<close> for a short row. The state
  holds the send log and the \<open>nonlocal\<close> variables of \<open>traiter_email\<close>;
  \<open>lettres_cache\<close> is a \<open>dict\<close> whose newest entry stands first. The environment adds
  the mailer to the one of the letter generation: \<open>smtp_ok destinataire objet contenu\<close>
  tells whether the \<open>try\<close> block of \<open>envoyer_email_avec_cv\<close> (message, attachments, SMTP
  session) runs through without an exception. \<open>date_envoi\<close> is the clock reading
  written to the log. The pauses (\<open>time.sleep\<close>) are not modelled.
\<close>

type_synonym tache = "string \<times> py_dict \<times> string option"

record etat =
  fichier_suivi :: "csv_file option"
  emails_sent :: nat
  emails_skipped :: nat
  api_calls_count :: nat
  lettres_cache :: str_dict

record outreach_env = generation_env +
  smtp_ok :: "string \<Rightarrow> string \<Rightarrow> string \<Rightarrow> bool"
  date_envoi :: string
  nom_candidat :: string

text \<open>\<open>envoyer_email_avec_cv\<close>: the pair is recorded only after the SMTP session has
  ended without an exception; any exception gives \<open>False\<close>.\<close>

definition envoyer_email_avec_cv ::
  "('a outreach_env_scheme) \<Rightarrow> csv_file option \<Rightarrow> string \<Rightarrow> string \<Rightarrow> string \<Rightarrow>
   string option \<Rightarrow> bool \<times> csv_file option" where
  "envoyer_email_avec_cv env log destinataire objet contenu nom_entreprise =
     (if smtp_ok env destinataire objet contenu
      then (True, snd (enregistrer_email_envoye log destinataire nom_entreprise (date_envoi env)))
      else (False, log))"

text \<open>The subject of line 735, an f-string.\<close>

definition objet_email :: "('a outreach_env_scheme) \<Rightarrow> string option \<Rightarrow> string" where
  "objet_email env nom_entreprise =
     ''Candidature pour un stage en d'' @ [CHR 0xE9] @ ''veloppement - ''
       @ nom_candidat env @ '' - '' @ str_of nom_entreprise"

text \<open>The throttle of lines 714 to 719.\<close>

definition compter_appel_api :: "bool \<Rightarrow> py_dict \<Rightarrow> etat \<Rightarrow> etat" where
  "compter_appel_api cache_lettres entreprise_info st =
     (if \<not> cache_lettres
         \<or> \<not> list_ex (\<lambda>cat. py_get entreprise_info ''category'' '''' = Some cat)
              (map fst (lettres_cache st))
      then (if api_calls_count st + 1 \<ge> 10
            then st\<lparr>api_calls_count := 0\<rparr>
            else st\<lparr>api_calls_count := api_calls_count st + 1\<rparr>)
      else st)"

text \<open>\<open>s.replace(old, new)\<close> where \<open>old\<close> or \<open>new\<close> may be \<open>None\<close>: \<open>str.replace\<close> then
  raises \<open>TypeError\<close>, whatever \<open>s\<close> holds.\<close>

definition replace_opt :: "string \<Rightarrow> string option \<Rightarrow> string option \<Rightarrow> exn + string" where
  "replace_opt s old new =
     (case old of
        None \<Rightarrow> Inl TypeError
      | Some a \<Rightarrow> (case new of None \<Rightarrow> Inl TypeError | Some b \<Rightarrow> Inr (replace s a b)))"

text \<open>The letter of lines 722 to 733: from the cache, or generated and then cached. The
  cache key is the category when the cache is on, and counts when it is a non-empty
  string. An exception is handed on with the state reached: the one of a raising
  generation, and the \<open>TypeError\<close> of \<open>replace\<close> at lines 728 and 733 when the company
  name is \<open>None\<close>.\<close>

definition obtenir_lettre ::
  "('a outreach_env_scheme) \<Rightarrow> bool \<Rightarrow> py_dict \<Rightarrow> string option \<Rightarrow> etat \<Rightarrow>
   (exn + string) \<times> etat" where
  "obtenir_lettre env cache_lettres entreprise_info nom_entreprise st =
     (let categorie = py_get entreprise_info ''category'' '''';
          cache_key = (if cache_lettres then categorie else None)
      in case (case cache_key of
                 None \<Rightarrow> None
               | Some k \<Rightarrow> if k \<noteq> [] then map_of (lettres_cache st) k else None)
         of Some lettre \<Rightarrow> (replace_opt lettre (Some ''[NOM_ENTREPRISE]'') nom_entreprise, st)
          | None \<Rightarrow>
              (case generer_lettre_motivation (generation_env.truncate env) entreprise_info of
                 Inl e \<Rightarrow> (Inl e, st)
               | Inr contenu_lettre \<Rightarrow>
                   (case cache_key of
                      None \<Rightarrow> (Inr contenu_lettre, st)
                    | Some k \<Rightarrow>
                        if k \<noteq> []
                        then (case replace_opt contenu_lettre nom_entreprise
                                     (Some ''[NOM_ENTREPRISE]'')
                              of Inl e \<Rightarrow> (Inl e, st)
                               | Inr modele \<Rightarrow>
                                   (Inr contenu_lettre,
                                    st\<lparr>lettres_cache := (k, modele) # lettres_cache st\<rparr>))
                        else (Inr contenu_lettre, st))))"

text \<open>\<open>traiter_email\<close> (lines 702 to 749). The result is the state it leaves and the
  exception it raises, if any.\<close>

definition traiter_email ::
  "('a outreach_env_scheme) \<Rightarrow> bool \<Rightarrow> bool \<Rightarrow> tache \<Rightarrow> etat \<Rightarrow> etat \<times> exn option" where
  "traiter_email env dry_run cache_lettres task st =
     (case task of (email, entreprise_info, nom_entreprise) \<Rightarrow>
        (case verifier_email_deja_envoye (fichier_suivi st) email nom_entreprise of
           (True, log) \<Rightarrow>
             (st\<lparr>fichier_suivi := log, emails_skipped := emails_skipped st + 1\<rparr>, None)
         | (False, log) \<Rightarrow>
             (case obtenir_lettre env cache_lettres entreprise_info nom_entreprise
                     (compter_appel_api cache_lettres entreprise_info (st\<lparr>fichier_suivi := log\<rparr>))
              of (Inl e, st') \<Rightarrow> (st', Some e)
               | (Inr contenu_lettre, st') \<Rightarrow>
                   if dry_run
                   then (st'\<lparr>fichier_suivi := snd (enregistrer_email_envoye (fichier_suivi st') email
                                           nom_entreprise (date_envoi env)),
                             emails_sent := emails_sent st' + 1\<rparr>, None)
                   else (case envoyer_email_avec_cv env (fichier_suivi st') email
                                 (objet_email env nom_entreprise) contenu_lettre nom_entreprise
                         of (True, log') \<Rightarrow>
                              (st'\<lparr>fichier_suivi := log', emails_sent := emails_sent st' + 1\<rparr>, None)
                          | (False, log') \<Rightarrow> (st'\<lparr>fichier_suivi := log'\<rparr>, None)))))"

text \<open>The sequential loop of line 818; an exception ends it.\<close>

fun traiter_taches ::
  "('a outreach_env_scheme) \<Rightarrow> bool \<Rightarrow> bool \<Rightarrow> tache list \<Rightarrow> etat \<Rightarrow> etat \<times> exn option" where
  "traiter_taches env dry_run cache_lettres [] st = (st, None)"
| "traiter_taches env dry_run cache_lettres (task # tasks) st =
     (case traiter_email env dry_run cache_lettres task st of
        (st', Some e) \<Rightarrow> (st', Some e)
      | (st', None) \<Rightarrow> traiter_taches env dry_run cache_lettres tasks st')"

text \<open>The rows of the input file are the dictionaries \<open>csv.DictReader\<close> yields: a column
  that the header lacks is absent, a column that a short row lacks is \<open>None\<close>. Lines 756
  to 783 turn a row into a task, or into none; \<open>email and '@' in email\<close> is false for
  \<open>None\<close> and for the empty string.\<close>

definition tache_de_ligne :: "dict_row \<Rightarrow> tache option" where
  "tache_de_ligne row =
     (case py_get row ''email'' '''' of
        None \<Rightarrow> None
      | Some email \<Rightarrow>
          if email \<noteq> [] \<and> CHR ''@'' \<in> set email
          then (let email = strip email
                in if contient ''sentry'' (lower email) then None
                   else (let entreprise_info =
                               [(''title'', py_get row ''title'' ''''),
                                (''category'', py_get row ''category'' ''''),
                                (''city'', py_get row ''city'' ''''),
                                (''country'', py_get row ''country'' ''''),
                                (''website'', py_get row ''website'' ''''),
                                (''phone'', py_get row ''phone'' '''')]
                         in Some (email, entreprise_info, py_get row ''title'' '''')))
          else None)"

definition preparer_taches :: "dict_row list \<Rightarrow> tache list" where
  "preparer_taches rows = List.map_filter tache_de_ligne rows"

text \<open>What a run leaves behind: the send log, the closing messages of the logger and the
  four counters. The messages about single rows and tasks are left out.\<close>

datatype message =
    OperationAnnulee
  | FichierIntrouvable
  | ErreurTraitement exn
  | TraitementTermine nat nat nat nat

record bilan =
  b_suivi :: "csv_file option"
  b_messages :: "message list"
  b_rows_processed :: nat
  b_emails_found :: nat
  b_emails_sent :: nat
  b_emails_skipped :: nat

record options_envoi =
  opt_cv_existe :: bool
  opt_confirmation :: string
  opt_dry_run :: bool
  opt_cache_lettres :: bool

text \<open>\<open>process_csv_and_send_emails\<close> in its sequential mode. \<open>input_file\<close> is \<open>None\<close>
  when the file does not exist, and otherwise its CSV rows, which line 754 reads in text
  mode. The clause \<open>except FileNotFoundError\<close> stands before \<open>except Exception\<close>; an
  exception of \<open>traiter_email\<close> ends the run with the message of that clause and
  without the closing summary. The function has no \<open>return\<close> with a value on any path:
  its caller receives \<open>None\<close> whatever happened.\<close>

definition process_csv_and_send_emails ::
  "('a outreach_env_scheme) \<Rightarrow> options_envoi \<Rightarrow> csv_file option \<Rightarrow> csv_file option \<Rightarrow> bilan" where
  "process_csv_and_send_emails env opts input_file log =
     (if \<not> opt_cv_existe opts \<and> lower (opt_confirmation opts) \<noteq> ''o''
      then \<lparr> b_suivi = log, b_messages = [OperationAnnulee], b_rows_processed = 0,
             b_emails_found = 0, b_emails_sent = 0, b_emails_skipped = 0 \<rparr>
      else (case input_file of
              None \<Rightarrow>
                \<lparr> b_suivi = log, b_messages = [FichierIntrouvable], b_rows_processed = 0,
                  b_emails_found = 0, b_emails_sent = 0, b_emails_skipped = 0 \<rparr>
            | Some contacts \<Rightarrow>
                (let rows = lire_csv contacts;
                     tasks = preparer_taches rows;
                     st0 = \<lparr> fichier_suivi = log, emails_sent = 0, emails_skipped = 0,
                             api_calls_count = 0, lettres_cache = [] \<rparr>
                 in case traiter_taches env (opt_dry_run opts) (opt_cache_lettres opts) tasks st0 of
                      (st, Some e) \<Rightarrow>
                        \<lparr> b_suivi = fichier_suivi st,
                          b_messages = [if e = FileNotFoundError then FichierIntrouvable
                                        else ErreurTraitement e],
                          b_rows_processed = length rows, b_emails_found = length tasks,
                          b_emails_sent = emails_sent st, b_emails_skipped = emails_skipped st \<rparr>
                    | (st, None) \<Rightarrow>
                        \<lparr> b_suivi = fichier_suivi st,
                          b_messages = [TraitementTermine (length rows) (length tasks)
                                          (emails_sent st) (emails_skipped st)],
                          b_rows_processed = length rows, b_emails_found = length tasks,
                          b_emails_sent = emails_sent st, b_emails_skipped = emails_skipped st \<rparr>)))"

text \<open>The script of sender.py (lines 845 to 900), its command line already parsed, and
  the exit status of its process: 0 after writing a template \<open>.env\<close>, 1 without the API
  key or without the sender's address or password, and otherwise the status of a script
  that runs to its end, since nothing follows the call of
  \<open>process_csv_and_send_emails\<close>.\<close>

record lancement =
  dotenv_existe :: bool
  mistral_api_key :: string
  expediteur :: string
  mot_de_passe :: string

definition sender_main ::
  "('a outreach_env_scheme) \<Rightarrow> lancement \<Rightarrow> options_envoi \<Rightarrow> csv_file option \<Rightarrow>
   csv_file option \<Rightarrow> nat \<times> bilan option" where
  "sender_main env l opts input_file log =
     (if \<not> dotenv_existe l then (0, None)
      else if mistral_api_key l = [] then (1, None)
      else if expediteur l = [] \<or> mot_de_passe l = [] then (1, None)
      else (0, Some (process_csv_and_send_emails env opts input_file log)))"

text \<open>An instance of the environment: the API gives the same answer at every attempt
  and the mailer succeeds or fails as told.\<close>

definition env_envoi :: "reponse_api \<Rightarrow> bool \<Rightarrow> outreach_env" where
  "env_envoi r ok =
     generation_env.extend (env_exemple r)
       \<lparr> smtp_ok = (\<lambda>destinataire objet contenu. ok),
         date_envoi = ''2024-09-10 08:00:00'',
         nom_candidat = ''Votre Nom'' \<rparr>"

definition reponse_acme :: reponse_api where
  "reponse_acme = Statut200 (Inr ''Madame, Monsieur, Acme recrute.'')"

text \<open>Input files: one contact; two contacts of one company; and a file whose only row
  stops before the title column.\<close>

definition entete_contacts :: "string list" where
  "entete_contacts =
     [''email'', ''title'', ''category'', ''city'', ''country'', ''website'', ''phone'']"

definition fichier_acme :: csv_file where
  "fichier_acme =
     [entete_contacts, ['' rh@acme.fr '', ''Acme'', ''Conseil'', ''Lyon'', ''FR'', '''', '''']]"

definition fichier_deux_contacts :: csv_file where
  "fichier_deux_contacts =
     [entete_contacts,
      [''rh@acme.fr'', ''Acme'', ''Conseil'', ''Lyon'', ''FR'', '''', ''''],
      [''paie@acme.fr'', ''ACME'', ''Conseil'', ''Lyon'', ''FR'', '''', '''']]"

definition fichier_court :: csv_file where
  "fichier_court = [[''email'', ''category'', ''title''], [''rh@acme.fr'', ''Conseil'']]"

definition options_test :: options_envoi where
  "options_test = \<lparr> opt_cv_existe = True, opt_confirmation = '''', opt_dry_run = True,
       opt_cache_lettres = True \<rparr>"

definition options_reel :: options_envoi where
  "options_reel = \<lparr> opt_cv_existe = True, opt_confirmation = '''', opt_dry_run = False,
       opt_cache_lettres = True \<rparr>"

text \<open>The letter that \<open>traiter_email\<close> hands to the mailer for a task that the log does
  not hold yet, and two runs in a row on the same input, the second one starting from
  the log the first one left.\<close>

definition lettre_envoyee ::
  "('a outreach_env_scheme) \<Rightarrow> bool \<Rightarrow> tache \<Rightarrow> etat \<Rightarrow> exn + string" where
  "lettre_envoyee env cache_lettres task st =
     (case task of (email, entreprise_info, nom_entreprise) \<Rightarrow>
        fst (obtenir_lettre env cache_lettres entreprise_info nom_entreprise
               (compter_appel_api cache_lettres entreprise_info
                  (st\<lparr>fichier_suivi :=
                        snd (verifier_email_deja_envoye (fichier_suivi st) email nom_entreprise)\<rparr>))))"

definition deux_executions ::
  "('a outreach_env_scheme) \<Rightarrow> options_envoi \<Rightarrow> csv_file option \<Rightarrow> csv_file option \<Rightarrow>
   bilan \<times> bilan" where
  "deux_executions env opts input_file log =
     (let premier = process_csv_and_send_emails env opts input_file log
      in (premier, process_csv_and_send_emails env opts input_file (b_suivi premier)))"

definition tache_acme :: tache where
  "tache_acme = (''rh@acme.fr'', acme, Some ''Acme'')"


section \<open>Regular expressions (the patterns of improve_csv.py)\<close>

text \<open>
  The patterns of the source use character classes, sequence, the greedy repetitions
  \<open>*\<close>, \<open>+\<close> and \<open>{2,}\<close>, and \<open>$\<close>. \<open>restes p s\<close> lists what is left of \<open>s\<close> after each
  way of matching \<open>p\<close> at its start, in the order in which the backtracking matcher of
  \<open>re\<close> tries them, so that the head of the list is the match that \<open>re\<close> reports. \<open>$\<close>
  matches at the end of the string and before a newline that ends it.
\<close>

datatype regex =
    Classe "char \<Rightarrow> bool"
  | Suite regex regex
  | Etoile regex
  | FinDeChaine

function restes :: "regex \<Rightarrow> string \<Rightarrow> string list" where
  "restes (Classe p) s = (case s of [] \<Rightarrow> [] | c # r \<Rightarrow> if p c then [r] else [])"
| "restes FinDeChaine s = (if s = [] \<or> s = [CHR 0x0A] then [s] else [])"
| "restes (Suite a b) s = concat (map (restes b) (restes a s))"
| "restes (Etoile a) s =
     concat (map (restes (Etoile a)) (filter (\<lambda>r. length r < length s) (restes a s))) @ [s]"
  by pat_completeness auto
termination
  by (relation "measures [\<lambda>(p, s). size p, \<lambda>(p, s). length s]") auto

definition Plus :: "regex \<Rightarrow> regex" where
  "Plus a = Suite a (Etoile a)"

definition AuMoinsDeux :: "regex \<Rightarrow> regex" where
  "AuMoinsDeux a = Suite a (Suite a (Etoile a))"

definition Car :: "char \<Rightarrow> regex" where
  "Car c = Classe (\<lambda>x. x = c)"

text \<open>\<open>re.match(p, s)\<close> as a truth value.\<close>

definition re_match :: "regex \<Rightarrow> string \<Rightarrow> bool" where
  "re_match p s = (restes p s \<noteq> [])"

text \<open>\<open>re.findall(p, s)\<close> for a pattern without groups: the matches from left to right,
  each search starting where the last match ended. The patterns of the source match no
  empty string; a match that consumes nothing is passed over like a failure.\<close>

function findall :: "regex \<Rightarrow> string \<Rightarrow> string list" where
  "findall p s =
     (case s of
        [] \<Rightarrow> []
      | c # s' \<Rightarrow>
          (case restes p s of
             [] \<Rightarrow> findall p s'
           | r # rs \<Rightarrow>
               if length r < length s
               then take (length s - length r) s # findall p r
               else findall p s'))"
  by pat_completeness auto
termination
  by (relation "measure (\<lambda>(p, s). length s)") auto

declare findall.simps [simp del]

text \<open>\<open>re.sub(p, '', s)\<close>, under the same proviso.\<close>

function re_sub_vide :: "regex \<Rightarrow> string \<Rightarrow> string" where
  "re_sub_vide p s =
     (case s of
        [] \<Rightarrow> []
      | c # s' \<Rightarrow>
          (case restes p s of
             [] \<Rightarrow> c # re_sub_vide p s'
           | r # rs \<Rightarrow>
               if length r < length s then re_sub_vide p r else c # re_sub_vide p s'))"
  by pat_completeness auto
termination
  by (relation "measure (\<lambda>(p, s). length s)") auto

declare re_sub_vide.simps [simp del]

definition est_lettre :: "char \<Rightarrow> bool" where
  "est_lettre c =
     (let n = (of_char c :: nat) in (65 \<le> n \<and> n \<le> 90) \<or> (97 \<le> n \<and> n \<le> 122))"

definition est_chiffre :: "char \<Rightarrow> bool" where
  "est_chiffre c = (let n = (of_char c :: nat) in 48 \<le> n \<and> n \<le> 57)"

text \<open>\<open>[A-Za-z0-9._%+\-]\<close>, \<open>[A-Za-z0-9.\-]\<close>, \<open>[A-Za-z0-9]\<close> and \<open>[A-Za-z]\<close>.\<close>

definition classe_locale :: "char \<Rightarrow> bool" where
  "classe_locale c = (est_lettre c \<or> est_chiffre c \<or> c \<in> set ''._%+-'')"

definition classe_domaine :: "char \<Rightarrow> bool" where
  "classe_domaine c = (est_lettre c \<or> est_chiffre c \<or> c \<in> set ''.-'')"

definition classe_alnum :: "char \<Rightarrow> bool" where
  "classe_alnum c = (est_lettre c \<or> est_chiffre c)"

text \<open>The pattern of line 122, for the first capture, and the stricter one of line 42
  (its \<open>^\<close> adds nothing under \<open>re.match\<close>).\<close>

definition motif_capture :: regex where
  "motif_capture =
     Suite (Plus (Classe classe_locale))
       (Suite (Car CHR ''@'')
          (Suite (Plus (Classe classe_domaine))
             (Suite (Car CHR ''.'') (AuMoinsDeux (Classe classe_alnum)))))"

definition motif_strict :: regex where
  "motif_strict =
     Suite (Plus (Classe classe_locale))
       (Suite (Car CHR ''@'')
          (Suite (Plus (Classe classe_domaine))
             (Suite (Car CHR ''.'')
                (Suite (AuMoinsDeux (Classe est_lettre)) FinDeChaine))))"

text \<open>The pattern \<open>[?#].*$\<close> of line 154; the dot matches every character but the
  newline.\<close>

definition motif_parametres :: regex where
  "motif_parametres =
     Suite (Classe (\<lambda>c. c = CHR ''?'' \<or> c = CHR ''#''))
       (Suite (Etoile (Classe (\<lambda>c. c \<noteq> CHR 0x0A))) FinDeChaine)"

section \<open>Email validation (improve_csv.py)\<close>

text \<open>\<open>s.endswith(p)\<close>, \<open>s.split(sep)\<close> for a separator of one character, and
  \<open>s.isdigit()\<close> on the code points below U+0100, where the superscripts one, two and
  three count as digits.\<close>

definition endswith :: "string \<Rightarrow> string \<Rightarrow> bool" where
  "endswith s p = startswith (rev s) (rev p)"

fun split_acc :: "string \<Rightarrow> char \<Rightarrow> string \<Rightarrow> string list" where
  "split_acc cur sep [] = [rev cur]"
| "split_acc cur sep (c # s) =
     (if c = sep then rev cur # split_acc [] sep s else split_acc (c # cur) sep s)"

definition split :: "string \<Rightarrow> char \<Rightarrow> string list" where
  "split s sep = split_acc [] sep s"

definition isdigit :: "string \<Rightarrow> bool" where
  "isdigit s =
     (s \<noteq> [] \<and> list_all (\<lambda>c. est_chiffre c \<or> c \<in> set [CHR 0xB2, CHR 0xB3, CHR 0xB9]) s)"

text \<open>\<open>urllib.parse.unquote\<close> and \<open>json.loads\<close> are library functions; the functions of
  this file take them as the record \<open>lib\<close>. A JSON document is read as a \<open>json\<close> value:
  \<open>JInt\<close> for a number without fraction or exponent, \<open>JFloat m e\<close> for the decimal
  number \<open>m * 10 ^ e\<close> that Python then rounds to a double.\<close>

datatype json =
    JNull
  | JBool bool
  | JInt int
  | JFloat int int
  | JStr string
  | JList "json list"
  | JDict "(string \<times> json) list"

record pylib =
  unquote :: "string \<Rightarrow> string"
  json_loads :: "string \<Rightarrow> exn + json"

definition invalid_extensions :: "string list" where
  "invalid_extensions =
     [''.png'', ''.jpg'', ''.jpeg'', ''.gif'', ''.bmp'', ''.tiff'', ''.webp'', ''.svg'', ''.ico'']"

definition generic_emails :: "string list" where
  "generic_emails =
     [''example@'', ''exemple@'', ''sample@'', ''test@'', ''demo@'',
      ''@example.'', ''@exemple.'', ''@sample.'', ''@test.'', ''@demo.'',
      ''john.doe@'', ''jane.doe@'', ''user@'', ''info@example'', ''contact@example'']"

text \<open>\<open>is_valid_email\<close> (lines 18 to 74), check by check.\<close>

definition is_valid_email :: "'a pylib_scheme \<Rightarrow> string \<Rightarrow> bool" where
  "is_valid_email lib email0 =
     (if email0 = [] \<or> length email0 < 5 then False
      else
        (let email1 = (if CHR ''%'' \<in> set email0 then unquote lib email0 else email0);
             email = replace (strip email1) '' '' ''''
         in if list_ex (\<lambda>ext. endswith (lower email) ext) invalid_extensions then False
            else if \<not> re_match motif_strict email then False
            else (case split email CHR ''@'' of
                    [local_part, domain] \<Rightarrow>
                      if local_part = [] \<or> domain = [] then False
                      else (let domain_parts = split domain CHR ''.''
                            in if length domain_parts < 2 \<or> last domain_parts = []
                                  \<or> length (last domain_parts) < 2
                               then False
                               else if isdigit (last domain_parts) then False
                               else if list_ex (\<lambda>generic. contient generic (lower email))
                                         generic_emails
                               then False
                               else True)
                  | _ \<Rightarrow> False)))"

text \<open>\<open>clean_email\<close> (lines 76 to 89).\<close>

definition clean_email :: "'a pylib_scheme \<Rightarrow> string \<Rightarrow> string" where
  "clean_email lib email0 =
     (if email0 = [] then email0
      else replace (strip (if CHR ''%'' \<in> set email0 then unquote lib email0 else email0))
             '' '' '''')"

text \<open>An instance of \<open>unquote\<close>: the escapes \<open>%00\<close> to \<open>%7F\<close> are decoded, everything
  else is kept.\<close>

definition valeur_hex :: "char \<Rightarrow> nat option" where
  "valeur_hex c =
     (let n = (of_char c :: nat)
      in if 48 \<le> n \<and> n \<le> 57 then Some (n - 48)
         else if 65 \<le> n \<and> n \<le> 70 then Some (n - 55)
         else if 97 \<le> n \<and> n \<le> 102 then Some (n - 87)
         else None)"

fun unquote_ascii :: "string \<Rightarrow> string" where
  "unquote_ascii (c # h # l # s) =
     (case (c = CHR ''%'', valeur_hex h, valeur_hex l) of
        (True, Some a, Some b) \<Rightarrow>
          if a < 8 then char_of (16 * a + b) # unquote_ascii s
          else c # unquote_ascii (h # l # s)
      | _ \<Rightarrow> c # unquote_ascii (h # l # s))"
| "unquote_ascii s = s"

section \<open>Record enrichment (improve_csv.py)\<close>

text \<open>\<open>clean_json_string\<close> (lines 7 to 16); \<open>json_str[1:-1]\<close> drops the first and the
  last character.\<close>

definition clean_json_string :: "string \<Rightarrow> string" where
  "clean_json_string json_str0 =
     (if json_str0 = [] then json_str0
      else (let json_str = replace json_str0 [CHR 0x5C, CHR 0x22] [CHR 0x22]
            in if startswith json_str [CHR 0x22] \<and> endswith json_str [CHR 0x22]
               then butlast (tl json_str)
               else json_str))"

text \<open>Python on JSON values: \<open>d.get(key, default)\<close> of a \<open>dict\<close> read from a document
  (a key given twice keeps its last value), \<open>v == True\<close>, and what \<open>for x in v\<close> walks
  through or raises. \<open>None\<close> is \<open>JNull\<close>. A decimal number equals \<open>True\<close> when it rounds
  to the double 1.0, that is when it lies between \<open>1 - 2^-54\<close> and \<open>1 + 2^-53\<close>.\<close>

definition jget :: "(string \<times> json) list \<Rightarrow> string \<Rightarrow> json \<Rightarrow> json" where
  "jget d key defaut = (case map_of (rev d) key of None \<Rightarrow> defaut | Some v \<Rightarrow> v)"

definition float_vaut_un :: "int \<Rightarrow> int \<Rightarrow> bool" where
  "float_vaut_un m e =
     (if 0 \<le> e then m * 10 ^ nat e = 1
      else (2 ^ 54 - 1) * 10 ^ nat (- e) \<le> m * 2 ^ 54
           \<and> m * 2 ^ 53 \<le> (2 ^ 53 + 1) * 10 ^ nat (- e))"

definition egal_True :: "json \<Rightarrow> bool" where
  "egal_True v =
     (case v of
        JBool b \<Rightarrow> b
      | JInt n \<Rightarrow> n = 1
      | JFloat m e \<Rightarrow> float_vaut_un m e
      | _ \<Rightarrow> False)"

definition iterer :: "json \<Rightarrow> exn + json list" where
  "iterer v =
     (case v of
        JList xs \<Rightarrow> Inr xs
      | JDict d \<Rightarrow> Inr (map JStr (remdups (map fst d)))
      | JStr s \<Rightarrow> Inr (map (\<lambda>c. JStr [c]) s)
      | _ \<Rightarrow> Inl TypeError)"

text \<open>The \<open>owner\<close> column (lines 158 to 171). \<open>get\<close> on a value that is no \<open>dict\<close> and
  \<open>replace\<close> on a value that is no \<open>str\<close> raise \<open>AttributeError\<close>, which the \<open>except\<close>
  clause does not catch.\<close>

definition extraire_owner :: "'a pylib_scheme \<Rightarrow> str_dict \<Rightarrow> exn + json \<times> string" where
  "extraire_owner lib row =
     (if dict_get row ''owner'' '''' \<noteq> []
      then (case json_loads lib (clean_json_string (dict_get row ''owner'' '''')) of
              Inl e \<Rightarrow>
                if e = JSONDecodeError \<or> e = TypeError then Inr (JStr '''', '''') else Inl e
            | Inr (JDict owner_data) \<Rightarrow>
                (case jget owner_data ''name'' (JStr '''') of
                   JStr name \<Rightarrow>
                     Inr (jget owner_data ''id'' (JStr ''''),
                          replace name ('' (propri'' @ [CHR 0xE9] @ ''taire)'') '''')
                 | _ \<Rightarrow> Inl AttributeError)
            | Inr _ \<Rightarrow> Inl AttributeError)
      else Inr (JStr '''', ''''))"

text \<open>The \<open>complete_address\<close> column (lines 173 to 193), the \<open>parse_address\<close> of the
  specification: street, city, postal code and country.\<close>

definition extraire_adresse ::
  "'a pylib_scheme \<Rightarrow> str_dict \<Rightarrow> exn + json \<times> json \<times> json \<times> json" where
  "extraire_adresse lib row =
     (if dict_get row ''complete_address'' '''' \<noteq> []
      then (case json_loads lib (clean_json_string (dict_get row ''complete_address'' '''')) of
              Inl e \<Rightarrow>
                if e = JSONDecodeError \<or> e = TypeError
                then Inr (JStr '''', JStr '''', JStr '''', JStr '''')
                else Inl e
            | Inr (JDict address_data) \<Rightarrow>
                Inr (jget address_data ''street'' (JStr ''''),
                     jget address_data ''city'' (JStr ''''),
                     jget address_data ''postal_code'' (JStr ''''),
                     jget address_data ''country'' (JStr ''''))
            | Inr _ \<Rightarrow> Inl AttributeError)
      else Inr (JStr '''', JStr '''', JStr '''', JStr ''''))"

text \<open>The \<open>about\<close> column (lines 196 to 216). The inner loop answers whether it found
  the enabled parking option; the outer loop carries \<open>has_wheelchair\<close> and stops at the
  first exception.\<close>

fun chercher_option :: "json list \<Rightarrow> exn + bool" where
  "chercher_option [] = Inr False"
| "chercher_option (option # options) =
     (case option of
        JDict d \<Rightarrow>
          if jget d ''name'' JNull = JStr ''Parking accessible en fauteuil roulant''
             \<and> egal_True (jget d ''enabled'' JNull)
          then Inr True
          else chercher_option options
      | _ \<Rightarrow> Inl AttributeError)"

fun parcourir_about :: "json list \<Rightarrow> string \<Rightarrow> string \<times> exn option" where
  "parcourir_about [] has_wheelchair = (has_wheelchair, None)"
| "parcourir_about (item # items) has_wheelchair =
     (case item of
        JDict d \<Rightarrow>
          if jget d ''id'' JNull = JStr ''accessibility''
          then (case iterer (jget d ''options'' (JList [])) of
                  Inl e \<Rightarrow> (has_wheelchair, Some e)
                | Inr options \<Rightarrow>
                    (case chercher_option options of
                       Inl e \<Rightarrow> (has_wheelchair, Some e)
                     | Inr True \<Rightarrow> parcourir_about items ''Oui''
                     | Inr False \<Rightarrow> parcourir_about items has_wheelchair))
          else parcourir_about items has_wheelchair
      | _ \<Rightarrow> parcourir_about items has_wheelchair)"

definition extraire_about :: "'a pylib_scheme \<Rightarrow> str_dict \<Rightarrow> exn + string" where
  "extraire_about lib row =
     (let about_str = dict_get row ''about'' ''''
      in if about_str \<noteq> [] \<and> lower about_str \<noteq> ''null''
         then (case (case json_loads lib (clean_json_string about_str) of
                       Inl e \<Rightarrow> (''Non'', Some e)
                     | Inr (JList about_data) \<Rightarrow> parcourir_about about_data ''Non''
                     | Inr _ \<Rightarrow> (''Non'', None))
               of (has_wheelchair, None) \<Rightarrow> Inr has_wheelchair
                | (has_wheelchair, Some e) \<Rightarrow>
                    if e = JSONDecodeError \<or> e = TypeError then Inr has_wheelchair else Inl e)
         else Inr ''Non'')"

text \<open>The output row of lines 140 to 216; the values read from JSON go to the CSV
  writer as they are.\<close>

record ligne_sortie =
  s_email :: string
  s_title :: string
  s_category :: string
  s_owner_id :: json
  s_owner_name :: string
  s_street :: json
  s_city :: json
  s_postal_code :: json
  s_country :: json
  s_wheelchair :: string
  s_address :: string
  s_website :: string
  s_phone :: string
  s_link :: string
  s_clean_link :: string

definition construire_ligne :: "'a pylib_scheme \<Rightarrow> str_dict \<Rightarrow> string \<Rightarrow> exn + ligne_sortie" where
  "construire_ligne lib row email =
     (let link = dict_get row ''link'' '''';
          clean_link = (if link \<noteq> [] then re_sub_vide motif_parametres link else link)
      in case extraire_owner lib row of
           Inl e \<Rightarrow> Inl e
         | Inr (owner_id, owner_name) \<Rightarrow>
             (case extraire_adresse lib row of
                Inl e \<Rightarrow> Inl e
              | Inr (street, city, postal_code, country) \<Rightarrow>
                  (case extraire_about lib row of
                     Inl e \<Rightarrow> Inl e
                   | Inr has_wheelchair \<Rightarrow>
                       Inr \<lparr> s_email = email,
                             s_title = dict_get row ''title'' '''',
                             s_category = dict_get row ''category'' '''',
                             s_owner_id = owner_id, s_owner_name = owner_name,
                             s_street = street, s_city = city,
                             s_postal_code = postal_code, s_country = country,
                             s_wheelchair = has_wheelchair,
                             s_address = dict_get row ''address'' '''',
                             s_website = dict_get row ''website'' '''',
                             s_phone = dict_get row ''phone'' '''',
                             s_link = link, s_clean_link = clean_link \<rparr>)))"

section \<open>The normalization pipeline (improve_csv.py)\<close>

text \<open>The variables of \<open>improve_csv\<close> and the rows written so far; \<open>processed_emails\<close>
  is the set of line 113.\<close>

record etat_csv =
  rows_processed :: nat
  emails_found :: nat
  emails_rejected :: nat
  processed_emails :: "string list"
  lignes_ecrites :: "ligne_sortie list"

text \<open>The test of line 132 on a cleaned candidate.\<close>

definition rejeter :: "'a pylib_scheme \<Rightarrow> string list \<Rightarrow> string \<Rightarrow> bool" where
  "rejeter lib processed email =
     (\<not> is_valid_email lib email \<or> contient ''sentry'' (lower email)
      \<or> lower email \<in> set processed)"

text \<open>The loop over the candidates of one row (lines 127 to 219) and the loop over the
  rows (lines 115 to 225); an exception that leaves the row ends both.\<close>

fun traiter_candidats ::
  "'a pylib_scheme \<Rightarrow> str_dict \<Rightarrow> string list \<Rightarrow> etat_csv \<Rightarrow> etat_csv \<times> exn option" where
  "traiter_candidats lib row [] st = (st, None)"
| "traiter_candidats lib row (candidat # candidats) st =
     (let email = clean_email lib candidat
      in if rejeter lib (processed_emails st) email
         then traiter_candidats lib row candidats
                (st\<lparr>emails_rejected := emails_rejected st + 1\<rparr>)
         else
           (let st' = st\<lparr>emails_found := emails_found st + 1,
                          processed_emails := set_add (lower email) (processed_emails st)\<rparr>
            in case construire_ligne lib row email of
                 Inl e \<Rightarrow> (st', Some e)
               | Inr new_row \<Rightarrow>
                   traiter_candidats lib row candidats
                     (st'\<lparr>lignes_ecrites := lignes_ecrites st' @ [new_row]\<rparr>)))"

fun traiter_lignes ::
  "'a pylib_scheme \<Rightarrow> str_dict list \<Rightarrow> etat_csv \<Rightarrow> etat_csv \<times> exn option" where
  "traiter_lignes lib [] st = (st, None)"
| "traiter_lignes lib (row # rows) st =
     (let st1 = st\<lparr>rows_processed := rows_processed st + 1\<rparr>;
          emails_str = dict_get row ''emails'' ''''
      in if emails_str \<noteq> []
         then (case traiter_candidats lib row (findall motif_capture emails_str) st1 of
                 (st2, Some e) \<Rightarrow> (st2, Some e)
               | (st2, None) \<Rightarrow> traiter_lignes lib rows st2)
         else traiter_lignes lib rows st1)"

text \<open>What \<open>improve_csv\<close> leaves behind: the value it returns, the closing messages it
  prints and the rows of the output file, \<open>None\<close> when the file was never opened. The
  input file is \<open>None\<close> when it does not exist.\<close>

datatype message_csv =
    Introuvable
  | Erreur exn
  | AmeliorationTerminee nat nat nat

record resultat_csv =
  r_retour :: bool
  r_messages :: "message_csv list"
  r_sortie :: "ligne_sortie list option"

definition improve_csv :: "'a pylib_scheme \<Rightarrow> str_dict list option \<Rightarrow> resultat_csv" where
  "improve_csv lib input_file =
     (case input_file of
        None \<Rightarrow> \<lparr> r_retour = False, r_messages = [Introuvable], r_sortie = None \<rparr>
      | Some rows \<Rightarrow>
          (case traiter_lignes lib rows
                  \<lparr> rows_processed = 0, emails_found = 0, emails_rejected = 0,
                    processed_emails = [], lignes_ecrites = [] \<rparr>
           of (st, Some e) \<Rightarrow>
                \<lparr> r_retour = False,
                  r_messages = [if e = FileNotFoundError then Introuvable else Erreur e],
                  r_sortie = Some (lignes_ecrites st) \<rparr>
            | (st, None) \<Rightarrow>
                \<lparr> r_retour = True,
                  r_messages = [AmeliorationTerminee (rows_processed st) (emails_found st)
                                  (emails_rejected st)],
                  r_sortie = Some (lignes_ecrites st) \<rparr>))"

text \<open>The script of improve_csv.py (lines 240 to 250) and its exit status; \<open>fichiers\<close>
  gives the rows of the file of a name, if it exists.\<close>

definition improve_main ::
  "'a pylib_scheme \<Rightarrow> string list \<Rightarrow> (string \<Rightarrow> str_dict list option) \<Rightarrow> nat" where
  "improve_main lib argv fichiers =
     (if length argv < 2 then 1
      else if \<not> r_retour (improve_csv lib (fichiers (argv ! 1))) then 2
      else 0)"

section \<open>An instance of the JSON reader\<close>

text \<open>
  \<open>json_loads_simple\<close> reads the documents of the examples the way \<open>json.loads\<close> does:
  objects, arrays, strings with the one-letter escapes, numbers, \<open>true\<close>, \<open>false\<close> and
  \<open>null\<close>, with blanks between them; anything else is a \<open>JSONDecodeError\<close>. The
  \<open>\u\<close> escapes and the names \<open>NaN\<close> and \<open>Infinity\<close> of the library are left out.
  The comparisons of lengths in \<open>lire_elements\<close> and \<open>lire_membres\<close> carry the
  termination proof: what is left after reading a value is always shorter.
\<close>

definition blancs :: "string \<Rightarrow> string" where
  "blancs s = dropWhile (\<lambda>c. c \<in> set [CHR '' '', CHR 0x09, CHR 0x0A, CHR 0x0D]) s"

definition echappements :: "(char \<times> char) list" where
  "echappements =
     [(CHR 0x22, CHR 0x22), (CHR 0x5C, CHR 0x5C), (CHR ''/'', CHR ''/''),
      (CHR ''b'', CHR 0x08), (CHR ''f'', CHR 0x0C), (CHR ''n'', CHR 0x0A),
      (CHR ''r'', CHR 0x0D), (CHR ''t'', CHR 0x09)]"

fun lire_chaine :: "string \<Rightarrow> string \<Rightarrow> (string \<times> string) option" where
  "lire_chaine acc [] = None"
| "lire_chaine acc [c] = (if c = CHR 0x22 then Some (rev acc, []) else None)"
| "lire_chaine acc (c # e # s) =
     (if c = CHR 0x22 then Some (rev acc, e # s)
      else if c = CHR 0x5C
      then (case map_of echappements e of
              None \<Rightarrow> None
            | Some x \<Rightarrow> lire_chaine (x # acc) s)
      else if (of_char c :: nat) < 32 then None
      else lire_chaine (c # acc) (e # s))"

definition entier :: "string \<Rightarrow> int" where
  "entier ds = foldl (\<lambda>n c. 10 * n + (int (of_char c) - 48)) 0 ds"

text \<open>A number, as the pattern \<open>(-?(?:0|[1-9]\d*))(\.\d+)?([eE][-+]?\d+)?\<close> of the
  library delimits it.\<close>

definition lire_nombre :: "string \<Rightarrow> (json \<times> string) option" where
  "lire_nombre s =
     (let negatif = startswith s ''-'';
          s1 = (if negatif then tl s else s);
          chiffres = (if startswith s1 ''0'' then ''0'' else takeWhile est_chiffre s1);
          s2 = drop (length chiffres) s1;
          fraction = (case s2 of
                        [] \<Rightarrow> []
                      | c # r \<Rightarrow> if c = CHR ''.'' then takeWhile est_chiffre r else []);
          s3 = (if fraction = [] then s2 else drop (length fraction + 1) s2);
          apres_e = (case s3 of
                       [] \<Rightarrow> None
                     | c # r \<Rightarrow>
                         if c = CHR ''e'' \<or> c = CHR ''E''
                         then (let moins = startswith r ''-'';
                                   r' = (if moins \<or> startswith r ''+'' then tl r else r);
                                   ds = takeWhile est_chiffre r'
                               in if ds = [] then None
                                  else Some ((if moins then - entier ds else entier ds),
                                             drop (length ds) r'))
                         else None);
          signe = (if negatif then - 1 else 1)
      in if chiffres = [] then None
         else (case apres_e of
                 None \<Rightarrow>
                   if fraction = [] then Some (JInt (signe * entier chiffres), s3)
                   else Some (JFloat (signe * entier (chiffres @ fraction))
                                (- int (length fraction)), s3)
               | Some (e, s4) \<Rightarrow>
                   Some (JFloat (signe * entier (chiffres @ fraction))
                           (e - int (length fraction)), s4)))"

lemma blancs_court: "length (blancs s) \<le> length s"
  by (simp add: blancs_def length_dropWhile_le)

lemma blancs_Cons: "blancs s = c # r \<Longrightarrow> length r < length s"
  using blancs_court [of s] by simp

function lire_valeur :: "string \<Rightarrow> (json \<times> string) option"
  and lire_elements :: "string \<Rightarrow> json list \<Rightarrow> (json \<times> string) option"
  and lire_membres :: "string \<Rightarrow> (string \<times> json) list \<Rightarrow> (json \<times> string) option"
where
  "lire_valeur s =
     (case s of
        [] \<Rightarrow> None
      | c # r \<Rightarrow>
          if c = CHR 0x22
          then (case lire_chaine [] r of
                  None \<Rightarrow> None
                | Some (t, r') \<Rightarrow> Some (JStr t, r'))
          else if c = CHR ''{''
          then (if startswith (blancs r) ''}'' then Some (JDict [], tl (blancs r))
                else lire_membres (blancs r) [])
          else if c = CHR ''[''
          then (if startswith (blancs r) '']'' then Some (JList [], tl (blancs r))
                else lire_elements (blancs r) [])
          else if startswith s ''null'' then Some (JNull, drop 4 s)
          else if startswith s ''true'' then Some (JBool True, drop 4 s)
          else if startswith s ''false'' then Some (JBool False, drop 5 s)
          else lire_nombre s)"
| "lire_elements s acc =
     (case lire_valeur s of
        None \<Rightarrow> None
      | Some (v, r) \<Rightarrow>
          if length r < length s
          then (case blancs r of
                  [] \<Rightarrow> None
                | c # r' \<Rightarrow>
                    if c = CHR '']'' then Some (JList (acc @ [v]), r')
                    else if c = CHR '','' then lire_elements (blancs r') (acc @ [v])
                    else None)
          else None)"
| "lire_membres s acc =
     (case s of
        [] \<Rightarrow> None
      | q # s1 \<Rightarrow>
          if q \<noteq> CHR 0x22 then None
          else (case lire_chaine [] s1 of
                  None \<Rightarrow> None
                | Some (key, s2) \<Rightarrow>
                    (case blancs s2 of
                       [] \<Rightarrow> None
                     | c # s3 \<Rightarrow>
                         if c \<noteq> CHR '':'' \<or> length s \<le> length (blancs s3) then None
                         else (case lire_valeur (blancs s3) of
                                 None \<Rightarrow> None
                               | Some (v, r) \<Rightarrow>
                                   if length r < length s
                                   then (case blancs r of
                                           [] \<Rightarrow> None
                                         | c' # r' \<Rightarrow>
                                             if c' = CHR ''}''
                                             then Some (JDict (acc @ [(key, v)]), r')
                                             else if c' = CHR '',''
                                             then lire_membres (blancs r') (acc @ [(key, v)])
                                             else None)
                                   else None))))"
  by pat_completeness auto
termination
proof (relation "measure (\<lambda>x. case x of
          Inl s \<Rightarrow> 2 * length s
        | Inr (Inl (s, acc)) \<Rightarrow> 2 * length s + 1
        | Inr (Inr (s, acc)) \<Rightarrow> 2 * length s + 1)", goal_cases)
  case 1
  then show ?case by simp
next
  case (2 s c r)
  then show ?case using blancs_court [of r] by simp
next
  case (3 s c r)
  then show ?case using blancs_court [of r] by simp
next
  case (4 s acc)
  then show ?case by simp
next
  case (5 s acc x v r c r')
  then show ?case using blancs_Cons [of r c r'] blancs_court [of r'] by simp
next
  case (6 s acc q s1 x key s2 c s3)
  then show ?case by simp
next
  case (7 s acc q s1 x key s2 c s3 y v r c' r')
  then show ?case using blancs_Cons [of r c' r'] blancs_court [of r'] by simp
qed

declare lire_valeur.simps [simp del] lire_elements.simps [simp del] lire_membres.simps [simp del]

definition json_loads_simple :: "string \<Rightarrow> exn + json" where
  "json_loads_simple s =
     (case lire_valeur (blancs s) of
        None \<Rightarrow> Inl JSONDecodeError
      | Some (v, r) \<Rightarrow> if blancs r = [] then Inr v else Inl JSONDecodeError)"

definition lib_simple :: pylib where
  "lib_simple = \<lparr> unquote = unquote_ascii, json_loads = json_loads_simple \<rparr>"

text \<open>The emails of the rows a run wrote, in the order of writing, and the inputs of the
  examples: the two documents of the address example, a row whose address column holds a
  JSON array, a complete launch configuration, and a reader that refuses every
  document.\<close>

definition emails_emis :: "resultat_csv \<Rightarrow> string list" where
  "emails_emis r = (case r_sortie r of None \<Rightarrow> [] | Some lignes \<Rightarrow> map s_email lignes)"

definition adresse_json :: string where
  \<open>adresse_json = ''{"street":"1 Rue A","city":"Paris","postal_code":"75001","country":"FR"}''\<close>

definition ligne_tableau :: str_dict where
  "ligne_tableau = [(''emails'', ''rh@acme.fr''), (''complete_address'', ''[1]'')]"

definition lancement_complet :: lancement where
  "lancement_complet =
     \<lparr> dotenv_existe = True, mistral_api_key = ''cle'', expediteur = ''moi@exemple.fr'',
       mot_de_passe = ''secret'' \<rparr>"

definition lib_refus :: pylib where
  "lib_refus = \<lparr> unquote = unquote_ascii, json_loads = (\<lambda>s. Inl JSONDecodeError) \<rparr>"

text \<open>Two invariants of the loops of \<open>improve_csv\<close>: the lowercased emails written so far
  are pairwise different and all in \<open>processed_emails\<close>, and none of them contains
  \<open>sentry\<close>.\<close>

definition sans_doublon :: "etat_csv \<Rightarrow> bool" where
  "sans_doublon st =
     (distinct (map (\<lambda>l. lower (s_email l)) (lignes_ecrites st))
      \<and> set (map (\<lambda>l. lower (s_email l)) (lignes_ecrites st)) \<subseteq> set (processed_emails st))"

definition sans_sentry :: "etat_csv \<Rightarrow> bool" where
  "sans_sentry st = list_all (\<lambda>l. \<not> contient ''sentry'' (lower (s_email l))) (lignes_ecrites st)"

section \<open>Properties of the send log\<close>

lemma universal_newlines_sans_cr: "CHR 0x0D \<notin> set (universal_newlines s)"
  by (induction s rule: universal_newlines.induct) auto

lemma universal_newlines_id: "CHR 0x0D \<notin> set s \<Longrightarrow> universal_newlines s = s"
  by (induction s rule: universal_newlines.induct) auto

lemma entete_lue: "map universal_newlines entete_suivi = entete_suivi"
  by (simp add: entete_suivi_def)

lemma dict_row_entete:
  "length r = 3 \<Longrightarrow>
   dict_row entete_suivi r =
     [(''email'', Some (r ! 0)), (''nom_entreprise'', Some (r ! 1)), (''date_envoi'', Some (r ! 2))]"
  by (cases r; cases "tl r"; cases "tl (tl r)") (auto simp: dict_row_def entete_suivi_def)

lemma ligne_correspond_entete:
  "length r = 3 \<Longrightarrow>
   ligne_correspond (dict_row entete_suivi r) email (Some nom)
     = Inr (entree_correspond email nom r)"
  by (simp add: dict_row_entete ligne_correspond_def getitem_lower_def entree_correspond_def)

lemma parcourir_suivi_entete:
  "list_all (\<lambda>r. length r = 3) rows \<Longrightarrow>
   parcourir_suivi (map (dict_row entete_suivi) rows) email (Some nom) =
     Inr (list_ex (entree_correspond email nom) rows)"
  by (induction rows) (simp_all add: ligne_correspond_entete split: bool.splits)

lemma filter_non_vide:
  "list_all (\<lambda>r. length r = 3) rows \<Longrightarrow> filter (\<lambda>r. r \<noteq> []) rows = rows"
  by (induction rows) auto

lemma lignes_lues_trois_champs:
  "list_all (\<lambda>r. length r = 3) rows \<Longrightarrow>
   list_all (\<lambda>r. length r = 3) (map (map universal_newlines) rows)"
  by (induction rows) auto

lemma lire_suivi:
  "list_all (\<lambda>r. length r = 3) rows \<Longrightarrow>
   lire_csv (entete_suivi # rows)
     = map (dict_row entete_suivi) (map (map universal_newlines) rows)"
  by (simp add: lire_csv_def entete_lue filter_non_vide lignes_lues_trois_champs
        del: map_map)

text \<open>In a log of the tracker's format the lookup for a pair with a company name is
  true exactly when an entry, as the reader sees it, has the email or the company name,
  compared after lowercasing.\<close>

lemma verifier_bien_forme:
  "suivi_bien_forme suivi \<Longrightarrow>
   fst (verifier_email_deja_envoye suivi email (Some nom)) =
     list_ex (entree_correspond email nom) (entrees_lues suivi)"
  by (auto simp: suivi_bien_forme_def verifier_email_deja_envoye_def entrees_def
        entrees_lues_def lire_suivi parcourir_suivi_entete lignes_lues_trois_champs
        simp del: map_map split: option.splits list.splits)

lemma verifier_conserve_bien_forme:
  "suivi_bien_forme suivi \<Longrightarrow> suivi_bien_forme (snd (verifier_email_deja_envoye suivi email nom))"
  by (auto simp: suivi_bien_forme_def verifier_email_deja_envoye_def split: option.splits list.splits)

lemma enregistrer_conserve_bien_forme:
  "suivi_bien_forme suivi \<Longrightarrow>
   suivi_bien_forme (snd (enregistrer_email_envoye suivi email nom d))"
  by (auto simp: suivi_bien_forme_def enregistrer_email_envoye_def split: option.splits list.splits)

lemma entrees_enregistrer:
  "suivi_bien_forme suivi \<Longrightarrow>
   entrees (snd (enregistrer_email_envoye suivi email nom d))
     = entrees suivi @ [[email, champ_csv nom, d]]"
  by (auto simp: suivi_bien_forme_def enregistrer_email_envoye_def entrees_def
        split: option.splits list.splits)

lemma entrees_verifier:
  "entrees (snd (verifier_email_deja_envoye suivi email nom)) = entrees suivi"
  by (auto simp: verifier_email_deja_envoye_def entrees_def split: option.splits)

text \<open>A lookup that finds an entry with the email or the company name also finds it
  after further entries have been appended.\<close>

lemma verifier_monotone:
  assumes "suivi_bien_forme suivi" and "suivi_bien_forme suivi'"
    and "entrees suivi' = entrees suivi @ nouvelles"
    and "fst (verifier_email_deja_envoye suivi email (Some nom))"
  shows "fst (verifier_email_deja_envoye suivi' email (Some nom))"
  using assms by (simp add: verifier_bien_forme entrees_lues_def list_ex_iff) blast

text \<open>Right after a pair has been recorded, the lookup is true for every pair with that
  email when the email holds no carriage return, and for every pair with that company
  name when the name holds none.\<close>

lemma verifier_apres_enregistrer:
  assumes "suivi_bien_forme suivi"
  shows "CHR 0x0D \<notin> set e \<Longrightarrow>
           fst (verifier_email_deja_envoye (snd (enregistrer_email_envoye suivi e nom d))
                  e (Some c'))"
    and "CHR 0x0D \<notin> set c \<Longrightarrow>
           fst (verifier_email_deja_envoye (snd (enregistrer_email_envoye suivi e (Some c) d))
                  e' (Some c))"
  using assms
  by (simp_all add: verifier_bien_forme enregistrer_conserve_bien_forme entrees_lues_def
        entrees_enregistrer entree_correspond_def universal_newlines_id champ_csv_def)


text \<open>
  C10. When the send-log file does not exist, a lookup creates it with the header row
  alone and answers false; after any lookup the file exists.
\<close>

theorem C10_verifier_cree_le_fichier:
  "verifier_email_deja_envoye None email nom = (False, Some [entete_suivi])
   \<and> snd (verifier_email_deja_envoye suivi email nom) \<noteq> None"
  by (simp add: verifier_email_deja_envoye_def split: option.splits)

section \<open>Properties of the crawler\<close>

text \<open>
  C8. The claim bounds the pages requested in one crawl by the configured maximum.
  The guard of the \<open>while\<close> loop compares the count with \<open>max_pages\<close> only between
  two depth levels, so a level is always visited whole: with \<open>max_pages = 2\<close> and a
  home page that links to three keyword pages, four pages are requested.
\<close>

theorem C8_quatre_pages_pour_max_pages_deux:
  "crawler_site_entreprise urllib_simple site_exemple
      \<lparr> max_depth = 3, max_pages = 2 \<rparr> ''https://exemple.fr''
    = Inr [''https://exemple.fr'', ''https://exemple.fr/about'',
           ''https://exemple.fr/services'', ''https://exemple.fr/projets'']
   \<and> max_pages \<lparr> max_depth = 3, max_pages = 2 \<rparr>
       < int (length [''https://exemple.fr'', ''https://exemple.fr/about'',
           ''https://exemple.fr/services'', ''https://exemple.fr/projets''])"
  by code_simp

section \<open>Properties of the letter generation\<close>

lemma tentatives_sans_succes:
  "(\<And>attempt t. attempt \<in> set attempts \<Longrightarrow>
      essai_api env nom (api_post env info attempt) \<noteq> Inr (Some t)) \<Longrightarrow>
   \<exists>e. tentatives env info nom attempts = Inl e"
proof (induction attempts)
  case Nil
  then show ?case by simp
next
  case (Cons attempt attempts)
  have suite: "\<exists>e. tentatives env info nom attempts = Inl e"
    using Cons by simp
  have ici: "\<And>t. essai_api env nom (api_post env info attempt) \<noteq> Inr (Some t)"
    using Cons.prems by simp
  show ?case
  proof (cases "essai_api env nom (api_post env info attempt)")
    case (Inl e)
    then show ?thesis using suite by simp
  next
    case (Inr r)
    then have "r = None" using ici by (cases r) auto
    then show ?thesis using Inr suite by simp
  qed
qed

lemma essai_api_429: "essai_api env nom Statut429 = Inr None"
  by (simp add: essai_api_def)

lemma generer_corps_sans_succes:
  assumes "\<And>attempt t. essai_api env (py_get info ''title'' ''votre entreprise'')
             (api_post env info attempt) \<noteq> Inr (Some t)"
  shows "\<exists>e. generer_corps env info = Inl e"
proof -
  have "\<exists>e. tentatives env info (py_get info ''title'' ''votre entreprise'')
          [0 ..< nat (api_max_retries env)] = Inl e"
    by (rule tentatives_sans_succes) (rule assms)
  then show ?thesis
    by (auto simp: generer_corps_def Let_def split: sum.splits)
qed

lemma generer_secours:
  "generer_corps env info = Inl e \<Longrightarrow>
   generer_lettre_motivation env info = Inr (lettre_secours info)"
  by (simp add: generer_lettre_motivation_def)

text \<open>
  C3. For every company context and every behaviour of the network,
  \<open>generer_lettre_motivation\<close> returns a letter and raises nothing; when every attempt
  is answered with HTTP 429, and more generally when no attempt yields a letter or the
  \<open>try\<close> block raises any exception, the result is the pre-written letter, which
  depends on the company name and the category alone.
\<close>

theorem C3_generer_ne_leve_pas:
  "(\<exists>lettre. generer_lettre_motivation env info = Inr lettre)
   \<and> ((\<forall>attempt. api_post env info attempt = Statut429) \<longrightarrow>
        generer_lettre_motivation env info = Inr (lettre_secours info))
   \<and> ((\<forall>attempt t. essai_api env (py_get info ''title'' ''votre entreprise'')
                      (api_post env info attempt) \<noteq> Inr (Some t)) \<longrightarrow>
        generer_lettre_motivation env info = Inr (lettre_secours info))
   \<and> (\<forall>e. generer_corps env info = Inl e \<longrightarrow>
        generer_lettre_motivation env info = Inr (lettre_secours info))
   \<and> (py_get info ''title'' ''votre entreprise'' = py_get info' ''title'' ''votre entreprise''
        \<and> py_get info ''category'' ''technologique'' = py_get info' ''category'' ''technologique''
        \<longrightarrow> lettre_secours info = lettre_secours info')"
proof -
  have un: "\<exists>lettre. generer_lettre_motivation env info = Inr lettre"
    by (simp add: generer_lettre_motivation_def split: sum.splits)
  have trois: "generer_lettre_motivation env info = Inr (lettre_secours info)"
    if "\<forall>attempt t. essai_api env (py_get info ''title'' ''votre entreprise'')
          (api_post env info attempt) \<noteq> Inr (Some t)"
  proof -
    have "\<exists>e. generer_corps env info = Inl e"
      by (rule generer_corps_sans_succes) (use that in blast)
    then obtain e where "generer_corps env info = Inl e" ..
    then show ?thesis by (rule generer_secours)
  qed
  have deux: "generer_lettre_motivation env info = Inr (lettre_secours info)"
    if "\<forall>attempt. api_post env info attempt = Statut429"
    using trois that by (simp add: essai_api_429)
  have cinq: "lettre_secours info = lettre_secours info'"
    if "py_get info ''title'' ''votre entreprise'' = py_get info' ''title'' ''votre entreprise''"
      and "py_get info ''category'' ''technologique'' = py_get info' ''category'' ''technologique''"
    using that by (simp add: lettre_secours_def)
  show ?thesis
    using un deux trois cinq generer_secours by blast
qed

theorem C3_generer_ne_leve_pas_witness:
  "(\<forall>attempt. api_post (env_exemple Statut429) acme attempt = Statut429)
   \<and> generer_corps (env_exemple Statut429) acme = Inl EchecTentatives
   \<and> generer_lettre_motivation (env_exemple Statut429) acme
       = Inr (lettre_secours_texte ''Acme'' ''Conseil'')
   \<and> lettre_secours acme
       = lettre_secours [(''category'', Some ''Conseil''), (''title'', Some ''Acme'')]"
proof -
  have h: "\<forall>attempt. api_post (env_exemple Statut429) acme attempt = Statut429"
    by (simp add: env_exemple_def)
  have corps: "generer_corps (env_exemple Statut429) acme = Inl EchecTentatives"
    by code_simp
  have secours: "lettre_secours acme = lettre_secours_texte ''Acme'' ''Conseil''"
    by (simp add: lettre_secours_def py_get_def acme_def str_of_def)
  have titre: "py_get acme ''title'' ''votre entreprise''
      = py_get [(''category'', Some ''Conseil''), (''title'', Some ''Acme'')] ''title'' ''votre entreprise''"
    by (simp add: py_get_def acme_def)
  have cat: "py_get acme ''category'' ''technologique''
      = py_get [(''category'', Some ''Conseil''), (''title'', Some ''Acme'')] ''category'' ''technologique''"
    by (simp add: py_get_def acme_def)
  show ?thesis
    using C3_generer_ne_leve_pas [of "env_exemple Statut429" acme
        "[(''category'', Some ''Conseil''), (''title'', Some ''Acme'')]"]
      h corps secours titre cat
    by simp
qed

section \<open>Properties of the orchestrator\<close>

lemma generer_retourne: "\<exists>lettre. generer_lettre_motivation env info = Inr lettre"
  by (simp add: generer_lettre_motivation_def split: sum.splits)

lemma compter_appel_api_champs:
  "fichier_suivi (compter_appel_api c info st) = fichier_suivi st"
  "emails_sent (compter_appel_api c info st) = emails_sent st"
  "emails_skipped (compter_appel_api c info st) = emails_skipped st"
  by (simp_all add: compter_appel_api_def)

text \<open>With a company name, \<open>replace\<close> raises nothing and a letter is obtained.\<close>

lemma obtenir_lettre_retourne:
  "\<exists>lettre st'. obtenir_lettre env c info (Some nom) st = (Inr lettre, st')
     \<and> fichier_suivi st' = fichier_suivi st
     \<and> emails_sent st' = emails_sent st
     \<and> emails_skipped st' = emails_skipped st"
proof -
  obtain lettre where "generer_lettre_motivation (generation_env.truncate env) info = Inr lettre"
    using generer_retourne by blast
  then show ?thesis
    by (auto simp: obtenir_lettre_def replace_opt_def Let_def split: option.splits)
qed

lemma traiter_email_deja:
  assumes "fst (verifier_email_deja_envoye (fichier_suivi st) email nom)"
  shows "traiter_email env d c (email, info, nom) st =
           (st\<lparr>fichier_suivi := snd (verifier_email_deja_envoye (fichier_suivi st) email nom),
               emails_skipped := emails_skipped st + 1\<rparr>, None)"
  using assms by (cases "verifier_email_deja_envoye (fichier_suivi st) email nom")
    (simp add: traiter_email_def)

lemma traiter_email_nouveau:
  assumes "\<not> fst (verifier_email_deja_envoye (fichier_suivi st) email (Some nom))"
  shows "\<exists>lettre st'.
           lettre_envoyee env c (email, info, Some nom) st = Inr lettre
         \<and> traiter_email env d c (email, info, Some nom) st = (st', None)
         \<and> emails_skipped st' = emails_skipped st
         \<and> (if d \<or> smtp_ok env email (objet_email env (Some nom)) lettre
             then fichier_suivi st' =
                    snd (enregistrer_email_envoye
                          (snd (verifier_email_deja_envoye (fichier_suivi st) email (Some nom)))
                          email (Some nom) (date_envoi env))
                  \<and> emails_sent st' = emails_sent st + 1
             else fichier_suivi st'
                    = snd (verifier_email_deja_envoye (fichier_suivi st) email (Some nom))
                  \<and> emails_sent st' = emails_sent st)"
proof -
  obtain log where v:
    "verifier_email_deja_envoye (fichier_suivi st) email (Some nom) = (False, log)"
    using assms by (cases "verifier_email_deja_envoye (fichier_suivi st) email (Some nom)") simp
  let ?st0 = "compter_appel_api c info (st\<lparr>fichier_suivi := log\<rparr>)"
  obtain lettre st1 where o: "obtenir_lettre env c info (Some nom) ?st0 = (Inr lettre, st1)"
    and f: "fichier_suivi st1 = log"
    and s: "emails_sent st1 = emails_sent st"
    and k: "emails_skipped st1 = emails_skipped st"
    using obtenir_lettre_retourne [of env c info nom ?st0]
    by (auto simp: compter_appel_api_champs)
  have l: "lettre_envoyee env c (email, info, Some nom) st = Inr lettre"
    by (simp add: lettre_envoyee_def v o)
  have t: "traiter_email env d c (email, info, Some nom) st =
      (if d \<or> smtp_ok env email (objet_email env (Some nom)) lettre
       then (st1\<lparr>fichier_suivi :=
                    snd (enregistrer_email_envoye log email (Some nom) (date_envoi env)),
                 emails_sent := emails_sent st + 1\<rparr>, None)
       else (st1\<lparr>fichier_suivi := log\<rparr>, None))"
    by (simp add: traiter_email_def v o f s envoyer_email_avec_cv_def)
  show ?thesis
  proof (cases "d \<or> smtp_ok env email (objet_email env (Some nom)) lettre")
    case True
    then show ?thesis using l t k v s by auto
  next
    case False
    then show ?thesis using l t k v s by auto
  qed
qed





lemma traiter_une_tache:
  "traiter_taches env d c [task] st = traiter_email env d c task st"
  by (cases "traiter_email env d c task st"; cases "snd (traiter_email env d c task st)") auto

text \<open>The emails of the tasks hold no carriage return: they are fields that the reader
  in text mode has seen, stripped.\<close>

lemma strip_sous_ensemble: "set (strip s) \<subseteq> set s"
  by (auto simp: strip_def dest!: set_dropWhileD)

lemma valeurs_lues_sans_cr:
  assumes "row \<in> set (lire_csv fichier)" and "(k, Some v) \<in> set row"
  shows "CHR 0x0D \<notin> set v"
proof (cases fichier)
  case Nil
  then show ?thesis using assms by (simp add: lire_csv_def)
next
  case (Cons h rows)
  then obtain r where r: "r \<in> set rows"
    and row: "row = dict_row (map universal_newlines h) (map universal_newlines r)"
    using assms(1) by (auto simp: lire_csv_def)
  have "Some v \<in> set (map Some (map universal_newlines r)
          @ replicate (length (map universal_newlines h) - length (map universal_newlines r)) None)"
    using assms(2) unfolding row dict_row_def by (rule set_zip_rightD)
  then obtain v0 where "v = universal_newlines v0"
    by auto
  then show ?thesis
    by (simp add: universal_newlines_sans_cr)
qed

lemma py_get_valeur:
  "py_get row key defaut = Some v \<Longrightarrow> v = defaut \<or> (key, Some v) \<in> set row"
  by (auto simp: py_get_def split: option.splits dest: map_of_SomeD)

lemma tache_de_ligne_sans_cr:
  assumes "tache_de_ligne row = Some (email, info, nom)"
    and "\<And>k v. (k, Some v) \<in> set row \<Longrightarrow> CHR 0x0D \<notin> set v"
  shows "CHR 0x0D \<notin> set email"
proof -
  obtain e0 where e0: "py_get row ''email'' '''' = Some e0" and email: "email = strip e0"
    using assms(1)
    by (auto simp: tache_de_ligne_def Let_def split: option.splits if_splits)
  have "CHR 0x0D \<notin> set e0"
    using py_get_valeur [OF e0] assms(2) by auto
  then show ?thesis
    using strip_sous_ensemble [of e0] email by auto
qed

lemma taches_sans_cr:
  assumes "task \<in> set (preparer_taches (lire_csv fichier))"
  shows "CHR 0x0D \<notin> set (fst task)"
proof -
  obtain row where row: "row \<in> set (lire_csv fichier)" and t: "tache_de_ligne row = Some task"
    using assms by (auto simp: preparer_taches_def List.map_filter_def)
  obtain email info nom where task: "task = (email, info, nom)"
    by (cases task) auto
  have "CHR 0x0D \<notin> set email"
    using t unfolding task
    by (rule tache_de_ligne_sans_cr) (rule valeurs_lues_sans_cr [OF row])
  then show ?thesis
    by (simp add: task)
qed

text \<open>One task with a company name in dry-run mode, from a log of the tracker's format.\<close>

lemma traiter_email_test:
  assumes "suivi_bien_forme (fichier_suivi st)"
  shows "\<exists>st'. traiter_email env True c (email, info, Some nom) st = (st', None)
     \<and> suivi_bien_forme (fichier_suivi st')
     \<and> (if fst (verifier_email_deja_envoye (fichier_suivi st) email (Some nom))
        then emails_sent st' = emails_sent st
           \<and> emails_skipped st' = emails_skipped st + 1
           \<and> entrees (fichier_suivi st') = entrees (fichier_suivi st)
        else emails_sent st' = emails_sent st + 1
           \<and> emails_skipped st' = emails_skipped st
           \<and> entrees (fichier_suivi st')
               = entrees (fichier_suivi st) @ [[email, nom, date_envoi env]])"
proof (cases "fst (verifier_email_deja_envoye (fichier_suivi st) email (Some nom))")
  case True
  then show ?thesis
    using assms by (simp add: traiter_email_deja entrees_verifier verifier_conserve_bien_forme)
next
  case False
  let ?log = "snd (verifier_email_deja_envoye (fichier_suivi st) email (Some nom))"
  have bf: "suivi_bien_forme ?log"
    using assms by (rule verifier_conserve_bien_forme)
  obtain st' where t: "traiter_email env True c (email, info, Some nom) st = (st', None)"
    and k: "emails_skipped st' = emails_skipped st"
    and f: "fichier_suivi st'
              = snd (enregistrer_email_envoye ?log email (Some nom) (date_envoi env))"
    and s: "emails_sent st' = emails_sent st + 1"
    using traiter_email_nouveau [OF False, of env c info True] by auto
  show ?thesis
    using False t k s bf
    by (simp add: f entrees_enregistrer entrees_verifier enregistrer_conserve_bien_forme
          champ_csv_def)
qed

text \<open>In a log of the tracker's format, an entry with the very email and company name
  of a pair makes the lookup for the pair true, when the email holds no carriage
  return.\<close>

lemma filtre_sans_correspondance:
  assumes "suivi_bien_forme suivi" and "CHR 0x0D \<notin> set e"
    and "\<not> fst (verifier_email_deja_envoye suivi e (Some n))"
  shows "filter (\<lambda>r. r ! 0 = e \<and> r ! 1 = n) (entrees suivi) = []"
proof -
  have trois: "list_all (\<lambda>r. length r = 3) (entrees suivi)"
    using assms(1)
    by (auto simp: suivi_bien_forme_def entrees_def split: option.splits list.splits)
  have "\<not> list_ex (entree_correspond e n) (map (map universal_newlines) (entrees suivi))"
    using assms(1,3) by (simp add: verifier_bien_forme entrees_lues_def)
  then have "\<And>r. r \<in> set (entrees suivi) \<Longrightarrow> r ! 0 \<noteq> e"
    using trois assms(2)
    by (auto simp: list_ex_iff list_all_iff entree_correspond_def universal_newlines_id)
  then show ?thesis
    by (auto simp: filter_empty_conv)
qed

text \<open>A dry run over tasks that all have a company name: every task is counted once,
  as sent with a new entry or as skipped; afterwards the lookup is true for every task,
  and no pair has got more than one new entry.\<close>

lemma traiter_taches_test:
  assumes "suivi_bien_forme (fichier_suivi st)"
    and "\<forall>task \<in> set tasks. snd (snd task) \<noteq> None"
    and "\<forall>task \<in> set tasks. CHR 0x0D \<notin> set (fst task)"
  shows "\<exists>st' nouvelles.
      traiter_taches env True c tasks st = (st', None)
    \<and> suivi_bien_forme (fichier_suivi st')
    \<and> entrees (fichier_suivi st') = entrees (fichier_suivi st) @ nouvelles
    \<and> emails_sent st' = emails_sent st + length nouvelles
    \<and> emails_sent st' + emails_skipped st'
        = emails_sent st + emails_skipped st + length tasks
    \<and> (\<forall>email info nom. (email, info, Some nom) \<in> set tasks \<longrightarrow>
          fst (verifier_email_deja_envoye (fichier_suivi st') email (Some nom)))
    \<and> (\<forall>email nom. CHR 0x0D \<notin> set email \<longrightarrow>
          length (filter (\<lambda>r. r ! 0 = email \<and> r ! 1 = nom) nouvelles) \<le> 1
        \<and> (fst (verifier_email_deja_envoye (fichier_suivi st) email (Some nom)) \<longrightarrow>
             filter (\<lambda>r. r ! 0 = email \<and> r ! 1 = nom) nouvelles = []))"
  using assms
proof (induction tasks arbitrary: st)
  case Nil
  then show ?case by simp
next
  case (Cons task tasks)
  obtain e1 i1 n1 where task: "task = (e1, i1, Some n1)"
    using Cons.prems(2) by (cases task) auto
  have cr1: "CHR 0x0D \<notin> set e1"
    using Cons.prems(3) by (simp add: task)
  let ?connu = "fst (verifier_email_deja_envoye (fichier_suivi st) e1 (Some n1))"
  let ?une = "if ?connu then [] else [[e1, n1, date_envoi env]]"
  obtain st1 where t1: "traiter_email env True c (e1, i1, Some n1) st = (st1, None)"
    and bf1: "suivi_bien_forme (fichier_suivi st1)"
    and e1: "entrees (fichier_suivi st1) = entrees (fichier_suivi st) @ ?une"
    and s1: "emails_sent st1 = emails_sent st + length ?une"
    and k1: "emails_sent st1 + emails_skipped st1 = emails_sent st + emails_skipped st + 1"
    using traiter_email_test [OF Cons.prems(1), of env c e1 i1 n1]
    by (auto split: if_splits)
  have connu1: "fst (verifier_email_deja_envoye (fichier_suivi st1) e1 (Some n1))"
  proof (cases ?connu)
    case True
    then show ?thesis
      using verifier_monotone [OF Cons.prems(1) bf1 e1] by simp
  next
    case False
    then show ?thesis
      using bf1 e1 cr1
      by (simp add: verifier_bien_forme entrees_lues_def entree_correspond_def
            universal_newlines_id)
  qed
  obtain st' suite where t: "traiter_taches env True c tasks st1 = (st', None)"
    and bf: "suivi_bien_forme (fichier_suivi st')"
    and e: "entrees (fichier_suivi st') = entrees (fichier_suivi st1) @ suite"
    and s: "emails_sent st' = emails_sent st1 + length suite"
    and k: "emails_sent st' + emails_skipped st'
              = emails_sent st1 + emails_skipped st1 + length tasks"
    and connus: "\<And>email info nom. (email, info, Some nom) \<in> set tasks \<Longrightarrow>
          fst (verifier_email_deja_envoye (fichier_suivi st') email (Some nom))"
    and une_fois: "\<And>email nom. CHR 0x0D \<notin> set email \<Longrightarrow>
          length (filter (\<lambda>r. r ! 0 = email \<and> r ! 1 = nom) suite) \<le> 1
        \<and> (fst (verifier_email_deja_envoye (fichier_suivi st1) email (Some nom)) \<longrightarrow>
             filter (\<lambda>r. r ! 0 = email \<and> r ! 1 = nom) suite = [])"
    using Cons.IH [OF bf1] Cons.prems(2,3) by auto
  have run: "traiter_taches env True c (task # tasks) st = (st', None)"
    by (simp add: task t1 t)
  have e': "entrees (fichier_suivi st') = entrees (fichier_suivi st) @ (?une @ suite)"
    by (simp add: e e1)
  have s': "emails_sent st' = emails_sent st + length (?une @ suite)"
    by (simp add: s s1)
  have k': "emails_sent st' + emails_skipped st'
      = emails_sent st + emails_skipped st + length (task # tasks)"
    using k k1 by simp
  have connus': "fst (verifier_email_deja_envoye (fichier_suivi st') email (Some nom))"
    if "(email, info, Some nom) \<in> set (task # tasks)" for email info nom
  proof (cases "(email, info, Some nom) = task")
    case True
    then show ?thesis
      using verifier_monotone [OF bf1 bf e connu1] by (simp add: task)
  next
    case False
    then show ?thesis using that connus by auto
  qed
  have une_fois': "length (filter (\<lambda>r. r ! 0 = email \<and> r ! 1 = nom) (?une @ suite)) \<le> 1
      \<and> (fst (verifier_email_deja_envoye (fichier_suivi st) email (Some nom)) \<longrightarrow>
           filter (\<lambda>r. r ! 0 = email \<and> r ! 1 = nom) (?une @ suite) = [])"
    if cr: "CHR 0x0D \<notin> set email" for email nom
  proof (cases "fst (verifier_email_deja_envoye (fichier_suivi st) email (Some nom))")
    case True
    have "fst (verifier_email_deja_envoye (fichier_suivi st1) email (Some nom))"
      using verifier_monotone [OF Cons.prems(1) bf1 e1 True] .
    then have "filter (\<lambda>r. r ! 0 = email \<and> r ! 1 = nom) suite = []"
      using une_fois [OF cr] by blast
    moreover have "filter (\<lambda>r. r ! 0 = email \<and> r ! 1 = nom) ?une = []"
      using True by auto
    ultimately show ?thesis
      using True by simp
  next
    case False
    show ?thesis
    proof (cases "filter (\<lambda>r. r ! 0 = email \<and> r ! 1 = nom) ?une = []")
      case True
      then show ?thesis
        using une_fois [OF cr] False by simp
    next
      case ici: False
      then have egal: "e1 = email \<and> n1 = nom" and nouveau: "\<not> ?connu"
        by (auto split: if_splits)
      have "fst (verifier_email_deja_envoye (fichier_suivi st1) email (Some nom))"
        using connu1 egal by simp
      then have "filter (\<lambda>r. r ! 0 = email \<and> r ! 1 = nom) suite = []"
        using une_fois [OF cr] by blast
      then show ?thesis
        using False egal nouveau by simp
    qed
  qed
  show ?case
    using run bf e' s' k' connus' une_fois' by blast
qed

text \<open>A run over tasks for which the lookup is already true skips every one of them
  and leaves the log as it is, in either mode.\<close>

lemma verifier_connu_inchange:
  "fst (verifier_email_deja_envoye suivi email nom) \<Longrightarrow>
   snd (verifier_email_deja_envoye suivi email nom) = suivi"
  by (cases suivi) (simp_all add: verifier_email_deja_envoye_def)

lemma traiter_taches_connues:
  assumes "\<forall>task \<in> set tasks.
             fst (verifier_email_deja_envoye (fichier_suivi st) (fst task) (snd (snd task)))"
  shows "\<exists>st'. traiter_taches env d c tasks st = (st', None)
     \<and> fichier_suivi st' = fichier_suivi st
     \<and> emails_sent st' = emails_sent st
     \<and> emails_skipped st' = emails_skipped st + length tasks"
  using assms
proof (induction tasks arbitrary: st)
  case Nil
  then show ?case by simp
next
  case (Cons task tasks)
  obtain email info nom where task: "task = (email, info, nom)"
    by (cases task) auto
  have connu: "fst (verifier_email_deja_envoye (fichier_suivi st) email nom)"
    using Cons.prems by (simp add: task)
  let ?st1 = "st\<lparr>fichier_suivi := fichier_suivi st, emails_skipped := emails_skipped st + 1\<rparr>"
  have t1: "traiter_email env d c task st = (?st1, None)"
    using traiter_email_deja [OF connu, of env d c info]
    by (simp add: task verifier_connu_inchange [OF connu])
  obtain st' where t: "traiter_taches env d c tasks ?st1 = (st', None)"
    and f: "fichier_suivi st' = fichier_suivi ?st1"
    and s: "emails_sent st' = emails_sent ?st1"
    and k: "emails_skipped st' = emails_skipped ?st1 + length tasks"
    using Cons.IH [of ?st1] Cons.prems by auto
  show ?case
    using t f s k by (simp add: t1)
qed

text \<open>
  C2, as the code has it. Two dry runs in a row over an input file whose tasks all have
  a company name, from a log of the tracker's format. The first run ends with its
  summary and counts every task once, as sent or as skipped, and appends one entry for
  each task it counts as sent. The second run counts no task as sent and every task as
  skipped, and leaves the entries as they are. After both runs the lookup is true for
  every task, and the runs have appended at most one entry with the email and company
  name of a task. For an input file with one task: when the lookup for it is false
  before the first run, the first run reports 1 sent and 0 skipped and appends the one
  entry of the pair, and the second run reports 0 sent and 1 skipped; when the lookup
  is true before the first run, both runs report 0 sent and 1 skipped and append
  nothing.
\<close>

theorem C2_deux_executions_test:
  assumes test: "opt_dry_run opts"
    and cv: "opt_cv_existe opts \<or> lower (opt_confirmation opts) = ''o''"
    and bf: "suivi_bien_forme log"
    and noms: "\<forall>task \<in> set (preparer_taches (lire_csv contacts)). snd (snd task) \<noteq> None"
  shows "\<exists>premier second sent skipped nouvelles.
      deux_executions env opts (Some contacts) log = (premier, second)
    \<and> b_messages premier
        = [TraitementTermine (length (lire_csv contacts))
             (length (preparer_taches (lire_csv contacts))) sent skipped]
    \<and> b_emails_sent premier = sent
    \<and> b_emails_skipped premier = skipped
    \<and> sent + skipped = length (preparer_taches (lire_csv contacts))
    \<and> entrees (b_suivi premier) = entrees log @ nouvelles
    \<and> length nouvelles = sent
    \<and> b_messages second
        = [TraitementTermine (length (lire_csv contacts))
             (length (preparer_taches (lire_csv contacts)))
             0 (length (preparer_taches (lire_csv contacts)))]
    \<and> b_emails_sent second = 0
    \<and> b_emails_skipped second = length (preparer_taches (lire_csv contacts))
    \<and> entrees (b_suivi second) = entrees log @ nouvelles
    \<and> (\<forall>email info nom.
          (email, info, Some nom) \<in> set (preparer_taches (lire_csv contacts)) \<longrightarrow>
            fst (verifier_email_deja_envoye (b_suivi second) email (Some nom))
          \<and> length (filter (\<lambda>r. r ! 0 = email \<and> r ! 1 = nom) nouvelles) \<le> 1)
    \<and> (\<forall>email info nom.
          preparer_taches (lire_csv contacts) = [(email, info, Some nom)] \<longrightarrow>
            (if fst (verifier_email_deja_envoye log email (Some nom))
             then sent = 0 \<and> skipped = 1 \<and> nouvelles = []
             else sent = 1 \<and> skipped = 0 \<and> nouvelles = [[email, nom, date_envoi env]]))"
proof -
  let ?tasks = "preparer_taches (lire_csv contacts)"
  let ?c = "opt_cache_lettres opts"
  let ?st0 = "\<lambda>l. \<lparr> fichier_suivi = l, emails_sent = 0, emails_skipped = 0,
                     api_calls_count = 0, lettres_cache = [] \<rparr>"
  have run: "process_csv_and_send_emails env opts (Some contacts) l =
      \<lparr> b_suivi = fichier_suivi st,
        b_messages = [TraitementTermine (length (lire_csv contacts)) (length ?tasks)
                        (emails_sent st) (emails_skipped st)],
        b_rows_processed = length (lire_csv contacts), b_emails_found = length ?tasks,
        b_emails_sent = emails_sent st, b_emails_skipped = emails_skipped st \<rparr>"
    if "traiter_taches env True ?c ?tasks (?st0 l) = (st, None)" for l st
    using test cv that by (auto simp: process_csv_and_send_emails_def Let_def)
  have cr: "\<forall>task \<in> set ?tasks. CHR 0x0D \<notin> set (fst task)"
    using taches_sans_cr by blast
  have bf0: "suivi_bien_forme (fichier_suivi (?st0 log))"
    using bf by simp
  obtain st1 nouvelles where t1: "traiter_taches env True ?c ?tasks (?st0 log) = (st1, None)"
    and e1: "entrees (fichier_suivi st1) = entrees log @ nouvelles"
    and s1: "emails_sent st1 = length nouvelles"
    and k1: "emails_sent st1 + emails_skipped st1 = length ?tasks"
    and connus: "\<And>email info nom. (email, info, Some nom) \<in> set ?tasks \<Longrightarrow>
          fst (verifier_email_deja_envoye (fichier_suivi st1) email (Some nom))"
    and une_fois: "\<And>email nom. CHR 0x0D \<notin> set email \<Longrightarrow>
          length (filter (\<lambda>r. r ! 0 = email \<and> r ! 1 = nom) nouvelles) \<le> 1"
    using traiter_taches_test [OF bf0 noms cr, of env ?c] by auto
  have tous: "\<forall>task \<in> set ?tasks.
      fst (verifier_email_deja_envoye (fichier_suivi (?st0 (fichier_suivi st1)))
             (fst task) (snd (snd task)))"
  proof
    fix task
    assume m: "task \<in> set ?tasks"
    then have "snd (snd task) \<noteq> None"
      using noms by blast
    then obtain email info nom where "task = (email, info, Some nom)"
      by (cases task) auto
    then show "fst (verifier_email_deja_envoye (fichier_suivi (?st0 (fichier_suivi st1)))
        (fst task) (snd (snd task)))"
      using connus m by simp
  qed
  obtain st2 where t2: "traiter_taches env True ?c ?tasks (?st0 (fichier_suivi st1)) = (st2, None)"
    and f2: "fichier_suivi st2 = fichier_suivi st1"
    and s2: "emails_sent st2 = 0"
    and k2: "emails_skipped st2 = length ?tasks"
    using traiter_taches_connues [OF tous, of env True ?c] by auto
  let ?premier = "process_csv_and_send_emails env opts (Some contacts) log"
  let ?second = "process_csv_and_send_emails env opts (Some contacts) (fichier_suivi st1)"
  have p: "?premier =
      \<lparr> b_suivi = fichier_suivi st1,
        b_messages = [TraitementTermine (length (lire_csv contacts)) (length ?tasks)
                        (emails_sent st1) (emails_skipped st1)],
        b_rows_processed = length (lire_csv contacts), b_emails_found = length ?tasks,
        b_emails_sent = emails_sent st1, b_emails_skipped = emails_skipped st1 \<rparr>"
    using t1 by (rule run)
  have s: "?second =
      \<lparr> b_suivi = fichier_suivi st1,
        b_messages = [TraitementTermine (length (lire_csv contacts)) (length ?tasks)
                        0 (length ?tasks)],
        b_rows_processed = length (lire_csv contacts), b_emails_found = length ?tasks,
        b_emails_sent = 0, b_emails_skipped = length ?tasks \<rparr>"
    using run [OF t2] by (simp add: f2 s2 k2)
  have deux: "deux_executions env opts (Some contacts) log = (?premier, ?second)"
    by (simp add: deux_executions_def Let_def p)
  have paires: "fst (verifier_email_deja_envoye (b_suivi ?second) email (Some nom))
      \<and> length (filter (\<lambda>r. r ! 0 = email \<and> r ! 1 = nom) nouvelles) \<le> 1"
    if m: "(email, info, Some nom) \<in> set ?tasks" for email info nom
  proof -
    have "CHR 0x0D \<notin> set email"
      using cr m by fastforce
    then show ?thesis
      using connus [OF m] une_fois by (simp add: s)
  qed
  have une: "if fst (verifier_email_deja_envoye log email (Some nom))
             then emails_sent st1 = 0 \<and> emails_skipped st1 = 1 \<and> nouvelles = []
             else emails_sent st1 = 1 \<and> emails_skipped st1 = 0
                \<and> nouvelles = [[email, nom, date_envoi env]]"
    if seule: "?tasks = [(email, info, Some nom)]" for email info nom
  proof -
    have "traiter_email env True ?c (email, info, Some nom) (?st0 log) = (st1, None)"
      using t1 by (simp only: seule traiter_une_tache)
    then show ?thesis
      using traiter_email_test [OF bf0, of env ?c email info nom] e1 s1 by auto
  qed
  show ?thesis
    apply (rule exI [of _ ?premier], rule exI [of _ ?second])
    apply (rule exI [of _ "emails_sent st1"], rule exI [of _ "emails_skipped st1"])
    apply (rule exI [of _ nouvelles])
    using deux e1 s1 k1 paires une by (simp add: p s)
qed

theorem C2_deux_executions_test_witness:
  "opt_dry_run options_test
   \<and> suivi_bien_forme None
   \<and> preparer_taches (lire_csv fichier_acme) = [tache_acme]
   \<and> \<not> fst (verifier_email_deja_envoye None ''rh@acme.fr'' (Some ''Acme''))
   \<and> b_messages (fst (deux_executions (env_envoi reponse_acme True) options_test
                        (Some fichier_acme) None))
       = [TraitementTermine 1 1 1 0]
   \<and> b_messages (snd (deux_executions (env_envoi reponse_acme True) options_test
                        (Some fichier_acme) None))
       = [TraitementTermine 1 1 0 1]
   \<and> entrees (b_suivi (snd (deux_executions (env_envoi reponse_acme True) options_test
                              (Some fichier_acme) None)))
       = [[''rh@acme.fr'', ''Acme'', ''2024-09-10 08:00:00'']]"
proof -
  have test: "opt_dry_run options_test"
    by (simp add: options_test_def)
  have cv: "opt_cv_existe options_test \<or> lower (opt_confirmation options_test) = ''o''"
    by (simp add: options_test_def)
  have bf: "suivi_bien_forme None"
    by (simp add: suivi_bien_forme_def)
  have taches: "preparer_taches (lire_csv fichier_acme) = [(''rh@acme.fr'', acme, Some ''Acme'')]"
    by code_simp
  have noms: "\<forall>task \<in> set (preparer_taches (lire_csv fichier_acme)). snd (snd task) \<noteq> None"
    by (simp add: taches)
  have lignes: "length (lire_csv fichier_acme) = 1"
    by code_simp
  have nouveau: "\<not> fst (verifier_email_deja_envoye None ''rh@acme.fr'' (Some ''Acme''))"
    by (simp add: verifier_email_deja_envoye_def)
  have date: "date_envoi (env_envoi reponse_acme True) = ''2024-09-10 08:00:00''"
    by (simp add: env_envoi_def generation_env.extend_def)
  have vide: "entrees None = []"
    by (simp add: entrees_def)
  obtain premier second sent skipped nouvelles
    where d: "deux_executions (env_envoi reponse_acme True) options_test (Some fichier_acme) None
                = (premier, second)"
      and p: "b_messages premier = [TraitementTermine 1 1 sent skipped]"
      and s: "b_messages second = [TraitementTermine 1 1 0 1]"
      and e: "entrees (b_suivi second) = nouvelles"
      and une: "sent = 1 \<and> skipped = 0 \<and> nouvelles = [[''rh@acme.fr'', ''Acme'', ''2024-09-10 08:00:00'']]"
    using C2_deux_executions_test [OF test cv bf noms, of "env_envoi reponse_acme True"]
      nouveau
    by (auto simp: taches lignes date vide)
  show ?thesis
    using test bf nouveau p s e une by (simp add: d taches tache_acme_def)
qed

text \<open>
  C2 as the claim states it, at one task and an absent log: the second dry run does not
  count the task as sent; it reports 0 sent and 1 skipped.
\<close>

theorem C2_seconde_execution_ignore:
  "b_emails_sent (snd (deux_executions (env_envoi reponse_acme True) options_test
                         (Some fichier_acme) None)) = 0
   \<and> b_messages (snd (deux_executions (env_envoi reponse_acme True) options_test
                         (Some fichier_acme) None))
       = [TraitementTermine 1 1 0 1]"
  by code_simp

text \<open>Three runs in dry-run mode beside the theorem. When the log holds another contact
  of the company, the first run already skips the task and writes no entry for its
  pair.\<close>

lemma execution_test_autre_contact:
  "b_messages (process_csv_and_send_emails (env_envoi reponse_acme True) options_test
                 (Some fichier_acme)
                 (Some [entete_suivi, [''autre@acme.fr'', ''ACME'', ''2024-09-01 08:00:00'']]))
     = [TraitementTermine 1 1 0 1]
   \<and> entrees (b_suivi (process_csv_and_send_emails (env_envoi reponse_acme True) options_test
                 (Some fichier_acme)
                 (Some [entete_suivi, [''autre@acme.fr'', ''ACME'', ''2024-09-01 08:00:00'']])))
     = [[''autre@acme.fr'', ''ACME'', ''2024-09-01 08:00:00'']]"
  by code_simp

text \<open>Of two contacts of one company in the input file, the first run counts the first
  as sent and the second as skipped.\<close>

lemma execution_test_deux_contacts:
  "b_messages (fst (deux_executions (env_envoi reponse_acme True) options_test
                      (Some fichier_deux_contacts) None))
     = [TraitementTermine 2 2 1 1]
   \<and> b_messages (snd (deux_executions (env_envoi reponse_acme True) options_test
                      (Some fichier_deux_contacts) None))
     = [TraitementTermine 2 2 0 2]
   \<and> entrees (b_suivi (snd (deux_executions (env_envoi reponse_acme True) options_test
                      (Some fichier_deux_contacts) None)))
     = [[''rh@acme.fr'', ''Acme'', ''2024-09-10 08:00:00'']]"
  by code_simp

text \<open>A row that stops before its title column gives a task whose company name is
  \<open>None\<close>. With a category to cache the letter under, \<open>replace\<close> at line 733 raises
  \<open>TypeError\<close>: the run ends with the message of a processing error, without summary,
  and records nothing. Without the cache, the task is counted as sent and recorded with
  an empty company name.\<close>

lemma execution_test_ligne_courte:
  "preparer_taches (lire_csv fichier_court)
     = [(''rh@acme.fr'',
         [(''title'', None), (''category'', Some ''Conseil''), (''city'', Some ''''),
          (''country'', Some ''''), (''website'', Some ''''), (''phone'', Some '''')],
         None)]
   \<and> b_messages (process_csv_and_send_emails (env_envoi reponse_acme True) options_test
                   (Some fichier_court) None)
       = [ErreurTraitement TypeError]
   \<and> b_emails_sent (process_csv_and_send_emails (env_envoi reponse_acme True) options_test
                      (Some fichier_court) None) = 0
   \<and> b_emails_skipped (process_csv_and_send_emails (env_envoi reponse_acme True) options_test
                         (Some fichier_court) None) = 0
   \<and> entrees (b_suivi (process_csv_and_send_emails (env_envoi reponse_acme True) options_test
                         (Some fichier_court) None)) = []
   \<and> b_messages (process_csv_and_send_emails (env_envoi reponse_acme True)
                   (options_test\<lparr>opt_cache_lettres := False\<rparr>) (Some fichier_court) None)
       = [TraitementTermine 1 1 1 0]
   \<and> entrees (b_suivi (process_csv_and_send_emails (env_envoi reponse_acme True)
                   (options_test\<lparr>opt_cache_lettres := False\<rparr>) (Some fichier_court) None))
       = [[''rh@acme.fr'', '''', ''2024-09-10 08:00:00'']]"
  by code_simp

section \<open>Properties of the normalization pipeline\<close>

lemma construire_ligne_email:
  "construire_ligne lib row email = Inr new_row \<Longrightarrow> s_email new_row = email"
  by (auto simp: construire_ligne_def Let_def split: sum.splits prod.splits)

lemma traiter_candidats_sans_doublon:
  "sans_doublon st \<Longrightarrow> sans_doublon (fst (traiter_candidats lib row candidats st))"
proof (induction candidats arbitrary: st)
  case Nil
  then show ?case by simp
next
  case (Cons candidat candidats)
  let ?email = "clean_email lib candidat"
  show ?case
  proof (cases "rejeter lib (processed_emails st) ?email")
    case True
    have "sans_doublon (st\<lparr>emails_rejected := emails_rejected st + 1\<rparr>)"
      using Cons.prems by (simp add: sans_doublon_def)
    then show ?thesis
      using True Cons.IH by (simp add: Let_def)
  next
    case False
    then have nouveau: "lower ?email \<notin> set (processed_emails st)"
      by (simp add: rejeter_def)
    let ?st' = "st\<lparr>emails_found := emails_found st + 1,
                    processed_emails := set_add (lower ?email) (processed_emails st)\<rparr>"
    have inv': "sans_doublon ?st'"
      using Cons.prems by (auto simp: sans_doublon_def set_add_def)
    show ?thesis
    proof (cases "construire_ligne lib row ?email")
      case (Inl e)
      then show ?thesis using False inv' by (simp add: Let_def)
    next
      case (Inr new_row)
      then have "s_email new_row = ?email"
        by (rule construire_ligne_email)
      then have "sans_doublon (?st'\<lparr>lignes_ecrites := lignes_ecrites ?st' @ [new_row]\<rparr>)"
        using Cons.prems nouveau by (auto simp: sans_doublon_def set_add_def)
      then show ?thesis
        using False Inr Cons.IH by (simp add: Let_def)
    qed
  qed
qed

lemma traiter_lignes_sans_doublon:
  "sans_doublon st \<Longrightarrow> sans_doublon (fst (traiter_lignes lib rows st))"
proof (induction rows arbitrary: st)
  case Nil
  then show ?case by simp
next
  case (Cons row rows)
  let ?st1 = "st\<lparr>rows_processed := rows_processed st + 1\<rparr>"
  have inv1: "sans_doublon ?st1"
    using Cons.prems by (simp add: sans_doublon_def)
  show ?case
  proof (cases "dict_get row ''emails'' '''' = []")
    case True
    then show ?thesis using inv1 Cons.IH by (simp add: Let_def)
  next
    case False
    let ?r = "traiter_candidats lib row (findall motif_capture (dict_get row ''emails'' '''')) ?st1"
    obtain st2 exc where r: "?r = (st2, exc)"
      by (cases ?r)
    have inv2: "sans_doublon st2"
      using traiter_candidats_sans_doublon [OF inv1, of lib row
          "findall motif_capture (dict_get row ''emails'' [])"] r
      by simp
    show ?thesis
    proof (cases exc)
      case None
      then show ?thesis
        using False r Cons.IH [OF inv2] by (simp add: Let_def)
    next
      case (Some e)
      then show ?thesis
        using False r inv2 by (simp add: Let_def)
    qed
  qed
qed

lemma traiter_candidats_sans_sentry:
  "sans_sentry st \<Longrightarrow> sans_sentry (fst (traiter_candidats lib row candidats st))"
proof (induction candidats arbitrary: st)
  case Nil
  then show ?case by simp
next
  case (Cons candidat candidats)
  let ?email = "clean_email lib candidat"
  show ?case
  proof (cases "rejeter lib (processed_emails st) ?email")
    case True
    have "sans_sentry (st\<lparr>emails_rejected := emails_rejected st + 1\<rparr>)"
      using Cons.prems by (simp add: sans_sentry_def)
    then show ?thesis
      using True Cons.IH by (simp add: Let_def)
  next
    case False
    then have propre: "\<not> contient ''sentry'' (lower ?email)"
      by (simp add: rejeter_def)
    let ?st' = "st\<lparr>emails_found := emails_found st + 1,
                    processed_emails := set_add (lower ?email) (processed_emails st)\<rparr>"
    have inv': "sans_sentry ?st'"
      using Cons.prems by (simp add: sans_sentry_def)
    show ?thesis
    proof (cases "construire_ligne lib row ?email")
      case (Inl e)
      then show ?thesis using False inv' by (simp add: Let_def)
    next
      case (Inr new_row)
      then have "s_email new_row = ?email"
        by (rule construire_ligne_email)
      then have "sans_sentry (?st'\<lparr>lignes_ecrites := lignes_ecrites ?st' @ [new_row]\<rparr>)"
        using Cons.prems propre by (simp add: sans_sentry_def)
      then show ?thesis
        using False Inr Cons.IH by (simp add: Let_def)
    qed
  qed
qed

lemma traiter_lignes_sans_sentry:
  "sans_sentry st \<Longrightarrow> sans_sentry (fst (traiter_lignes lib rows st))"
proof (induction rows arbitrary: st)
  case Nil
  then show ?case by simp
next
  case (Cons row rows)
  let ?st1 = "st\<lparr>rows_processed := rows_processed st + 1\<rparr>"
  have inv1: "sans_sentry ?st1"
    using Cons.prems by (simp add: sans_sentry_def)
  show ?case
  proof (cases "dict_get row ''emails'' '''' = []")
    case True
    then show ?thesis using inv1 Cons.IH by (simp add: Let_def)
  next
    case False
    let ?r = "traiter_candidats lib row (findall motif_capture (dict_get row ''emails'' '''')) ?st1"
    obtain st2 exc where r: "?r = (st2, exc)"
      by (cases ?r)
    have inv2: "sans_sentry st2"
      using traiter_candidats_sans_sentry [OF inv1, of lib row
          "findall motif_capture (dict_get row ''emails'' [])"] r
      by simp
    show ?thesis
    proof (cases exc)
      case None
      then show ?thesis
        using False r Cons.IH [OF inv2] by (simp add: Let_def)
    next
      case (Some e)
      then show ?thesis
        using False r inv2 by (simp add: Let_def)
    qed
  qed
qed

lemma lignes_de_improve_csv:
  "r_sortie (improve_csv lib (Some rows)) =
     Some (lignes_ecrites (fst (traiter_lignes lib rows
             \<lparr> rows_processed = 0, emails_found = 0, emails_rejected = 0,
               processed_emails = [], lignes_ecrites = [] \<rparr>)))"
  by (simp add: improve_csv_def split: prod.splits option.splits)

text \<open>
  C5. Whatever the input rows and whatever the library functions return, the emails of
  the rows that one run of \<open>improve_csv\<close> writes are pairwise different after
  lowercasing, also when an exception ends the run early; the test of line 132 rejects a
  candidate whose lowercased form is already in \<open>processed_emails\<close>.
\<close>

theorem C5_emails_emis_distincts:
  "distinct (map lower (emails_emis (improve_csv lib input_file)))
   \<and> (lower email \<in> set processed \<longrightarrow> rejeter lib processed email)"
proof (cases input_file)
  case None
  then show ?thesis by (simp add: improve_csv_def emails_emis_def rejeter_def)
next
  case (Some rows)
  let ?st0 = "\<lparr> rows_processed = 0, emails_found = 0, emails_rejected = 0,
                 processed_emails = [], lignes_ecrites = [] \<rparr>"
  have "sans_doublon ?st0"
    by (simp add: sans_doublon_def)
  then have "sans_doublon (fst (traiter_lignes lib rows ?st0))"
    by (rule traiter_lignes_sans_doublon)
  then show ?thesis
    using Some
    by (simp add: emails_emis_def lignes_de_improve_csv sans_doublon_def comp_def rejeter_def)
qed

theorem C5_emails_emis_distincts_witness:
  "lower ''RH@Acme.fr'' \<in> set [''rh@acme.fr'']
   \<and> rejeter lib_simple [''rh@acme.fr''] ''RH@Acme.fr''
   \<and> emails_emis (improve_csv lib_simple
        (Some [[(''emails'', ''rh@acme.fr, RH@Acme.fr'')], [(''emails'', ''Rh@acme.FR paie@acme.fr'')]]))
       = [''rh@acme.fr'', ''paie@acme.fr'']"
proof -
  have h: "lower ''RH@Acme.fr'' \<in> set [''rh@acme.fr'']"
    by code_simp
  have r: "rejeter lib_simple [''rh@acme.fr''] ''RH@Acme.fr''"
    using C5_emails_emis_distincts [of lib_simple None "''RH@Acme.fr''" "[''rh@acme.fr'']"] h
    by blast
  have e: "emails_emis (improve_csv lib_simple
        (Some [[(''emails'', ''rh@acme.fr, RH@Acme.fr'')], [(''emails'', ''Rh@acme.FR paie@acme.fr'')]]))
       = [''rh@acme.fr'', ''paie@acme.fr'']"
    by code_simp
  show ?thesis using h r e by blast
qed

text \<open>
  C6, as the code has it. The rule on \<open>sentry\<close> is a disjunct of the test of line 132,
  beside \<open>is_valid_email\<close> and not in it: a cleaned candidate whose lowercased form
  contains \<open>sentry\<close> is rejected by that test whatever \<open>is_valid_email\<close> answers, and no
  email that a run writes contains \<open>sentry\<close> after lowercasing.
\<close>

theorem C6_sentry_rejete_par_le_pipeline:
  "(contient ''sentry'' (lower email) \<longrightarrow> rejeter lib processed email)
   \<and> list_all (\<lambda>e. \<not> contient ''sentry'' (lower e)) (emails_emis (improve_csv lib input_file))"
proof -
  have un: "contient ''sentry'' (lower email) \<longrightarrow> rejeter lib processed email"
    by (simp add: rejeter_def)
  have deux: "list_all (\<lambda>e. \<not> contient ''sentry'' (lower e))
      (emails_emis (improve_csv lib input_file))"
  proof (cases input_file)
    case None
    then show ?thesis by (simp add: improve_csv_def emails_emis_def)
  next
    case (Some rows)
    let ?st0 = "\<lparr> rows_processed = 0, emails_found = 0, emails_rejected = 0,
                   processed_emails = [], lignes_ecrites = [] \<rparr>"
    have "sans_sentry ?st0"
      by (simp add: sans_sentry_def)
    then have "sans_sentry (fst (traiter_lignes lib rows ?st0))"
      by (rule traiter_lignes_sans_sentry)
    then show ?thesis
      using Some
      by (simp add: emails_emis_def lignes_de_improve_csv sans_sentry_def list_all_iff)
  qed
  show ?thesis using un deux by simp
qed

theorem C6_sentry_rejete_par_le_pipeline_witness:
  "contient ''sentry'' (lower ''Alertes@Sentry.io'')
   \<and> rejeter lib_simple [] ''Alertes@Sentry.io''
   \<and> emails_emis (improve_csv lib_simple
        (Some [[(''emails'', ''Alertes@Sentry.io, rh@acme.fr'')]])) = [''rh@acme.fr'']"
proof -
  have h: "contient ''sentry'' (lower ''Alertes@Sentry.io'')"
    by code_simp
  have r: "rejeter lib_simple [] ''Alertes@Sentry.io''"
    using C6_sentry_rejete_par_le_pipeline [of "''Alertes@Sentry.io''" lib_simple "[]"] h
    by simp
  have e: "emails_emis (improve_csv lib_simple
        (Some [[(''emails'', ''Alertes@Sentry.io, rh@acme.fr'')]])) = [''rh@acme.fr'']"
    by code_simp
  show ?thesis using h r e by simp
qed

text \<open>
  C6 as the claim states it: \<open>is_valid_email\<close> accepts an address whose lowercased form
  contains \<open>sentry\<close>.
\<close>

theorem C6_is_valid_email_accepte_sentry:
  "contient ''sentry'' (lower ''a@sentry.io'') \<and> is_valid_email lib_simple ''a@sentry.io''"
  by code_simp

section \<open>Properties of the record enrichment\<close>

lemma extraire_owner_refus:
  "(\<And>s. json_loads lib s = Inl JSONDecodeError) \<Longrightarrow> extraire_owner lib row = Inr (JStr '''', '''')"
  by (simp add: extraire_owner_def)

lemma extraire_adresse_refus:
  "json_loads lib (clean_json_string (dict_get row ''complete_address'' '''')) = Inl JSONDecodeError
   \<Longrightarrow> extraire_adresse lib row = Inr (JStr '''', JStr '''', JStr '''', JStr '''')"
  by (simp add: extraire_adresse_def)

lemma extraire_about_refus:
  "(\<And>s. json_loads lib s = Inl JSONDecodeError) \<Longrightarrow> extraire_about lib row = Inr ''Non''"
  by (simp add: extraire_about_def Let_def)

text \<open>
  C9. The address block of \<open>improve_csv\<close> (lines 173 to 193), with the JSON reader of the
  examples: the document of the claim yields exactly its four values, and \<open>not json\<close>
  yields four empty strings and no exception. With any JSON reader: a document that the
  reader rejects with \<open>JSONDecodeError\<close> yields four empty strings, and a row all of whose
  JSON columns are rejected is still built, its JSON fields empty.
\<close>

theorem C9_adresse_lue_ou_vide:
  "extraire_adresse lib_simple [(''complete_address'', adresse_json)]
     = Inr (JStr ''1 Rue A'', JStr ''Paris'', JStr ''75001'', JStr ''FR'')
   \<and> extraire_adresse lib_simple [(''complete_address'', ''not json'')]
     = Inr (JStr '''', JStr '''', JStr '''', JStr '''')
   \<and> (json_loads lib (clean_json_string (dict_get row ''complete_address'' '''')) = Inl JSONDecodeError
        \<longrightarrow> extraire_adresse lib row = Inr (JStr '''', JStr '''', JStr '''', JStr ''''))
   \<and> ((\<forall>s. json_loads lib s = Inl JSONDecodeError) \<longrightarrow>
        (\<exists>new_row. construire_ligne lib row email = Inr new_row
           \<and> s_email new_row = email
           \<and> s_owner_id new_row = JStr '''' \<and> s_owner_name new_row = ''''
           \<and> s_street new_row = JStr '''' \<and> s_city new_row = JStr ''''
           \<and> s_postal_code new_row = JStr '''' \<and> s_country new_row = JStr ''''
           \<and> s_wheelchair new_row = ''Non''))"
proof -
  have un: "extraire_adresse lib_simple [(''complete_address'', adresse_json)]
     = Inr (JStr ''1 Rue A'', JStr ''Paris'', JStr ''75001'', JStr ''FR'')"
    by code_simp
  have deux: "extraire_adresse lib_simple [(''complete_address'', ''not json'')]
     = Inr (JStr '''', JStr '''', JStr '''', JStr '''')"
    by code_simp
  have quatre: "\<exists>new_row. construire_ligne lib row email = Inr new_row
           \<and> s_email new_row = email
           \<and> s_owner_id new_row = JStr '''' \<and> s_owner_name new_row = ''''
           \<and> s_street new_row = JStr '''' \<and> s_city new_row = JStr ''''
           \<and> s_postal_code new_row = JStr '''' \<and> s_country new_row = JStr ''''
           \<and> s_wheelchair new_row = ''Non''"
    if refus: "\<forall>s. json_loads lib s = Inl JSONDecodeError"
  proof -
    have o: "extraire_owner lib row = Inr (JStr '''', '''')"
      using refus by (simp add: extraire_owner_refus)
    have a: "extraire_adresse lib row = Inr (JStr '''', JStr '''', JStr '''', JStr '''')"
      using refus by (simp add: extraire_adresse_refus)
    have b: "extraire_about lib row = Inr ''Non''"
      using refus by (simp add: extraire_about_refus)
    show ?thesis
      by (simp add: construire_ligne_def Let_def o a b)
  qed
  show ?thesis
    using un deux quatre extraire_adresse_refus [of lib row] by blast
qed

theorem C9_adresse_lue_ou_vide_witness:
  "json_loads lib_simple (clean_json_string (dict_get [(''complete_address'', ''{oops'')]
      ''complete_address'' '''')) = Inl JSONDecodeError
   \<and> extraire_adresse lib_simple [(''complete_address'', ''{oops'')]
       = Inr (JStr '''', JStr '''', JStr '''', JStr '''')
   \<and> (\<forall>s. json_loads lib_refus s = Inl JSONDecodeError)
   \<and> (\<exists>new_row. construire_ligne lib_refus
          [(''owner'', ''{oops''), (''complete_address'', ''not json''), (''about'', ''[oops'')]
          ''rh@acme.fr'' = Inr new_row
        \<and> s_email new_row = ''rh@acme.fr'' \<and> s_street new_row = JStr ''''
        \<and> s_wheelchair new_row = ''Non'')"
proof -
  have h1: "json_loads lib_simple (clean_json_string (dict_get [(''complete_address'', ''{oops'')]
      ''complete_address'' '''')) = Inl JSONDecodeError"
    by code_simp
  have h2: "\<forall>s. json_loads lib_refus s = Inl JSONDecodeError"
    by (simp add: lib_refus_def)
  have a: "extraire_adresse lib_simple [(''complete_address'', ''{oops'')]
       = Inr (JStr '''', JStr '''', JStr '''', JStr '''')"
    using C9_adresse_lue_ou_vide [of lib_simple "[(''complete_address'', ''{oops'')]"] h1
    by blast
  have b: "\<exists>new_row. construire_ligne lib_refus
          [(''owner'', ''{oops''), (''complete_address'', ''not json''), (''about'', ''[oops'')]
          ''rh@acme.fr'' = Inr new_row
        \<and> s_email new_row = ''rh@acme.fr'' \<and> s_street new_row = JStr ''''
        \<and> s_wheelchair new_row = ''Non''"
    using C9_adresse_lue_ou_vide [of lib_refus
        "[(''owner'', ''{oops''), (''complete_address'', ''not json''), (''about'', ''[oops'')]"
        "''rh@acme.fr''"] h2
    by blast
  show ?thesis using h1 h2 a b by blast
qed

section \<open>A missing input file\<close>

text \<open>
  C7, as the code has it. When the input file does not exist, \<open>improve_csv\<close> prints its
  not-found message, opens no output file and returns \<open>False\<close>, and its script exits
  with status 2; \<open>process_csv_and_send_emails\<close>, once past the question about the CV,
  logs its not-found message, leaves the send log and the counters untouched and
  returns nothing, and its script, once configured, ends with exit status 0.
\<close>

theorem C7_fichier_introuvable:
  "improve_csv lib None = \<lparr> r_retour = False, r_messages = [Introuvable], r_sortie = None \<rparr>
   \<and> (2 \<le> length argv \<and> fichiers (argv ! 1) = None \<longrightarrow> improve_main lib argv fichiers = 2)
   \<and> (opt_cv_existe opts \<or> lower (opt_confirmation opts) = ''o'' \<longrightarrow>
        process_csv_and_send_emails env opts None log =
          \<lparr> b_suivi = log, b_messages = [FichierIntrouvable], b_rows_processed = 0,
            b_emails_found = 0, b_emails_sent = 0, b_emails_skipped = 0 \<rparr>)
   \<and> (dotenv_existe l \<and> mistral_api_key l \<noteq> [] \<and> expediteur l \<noteq> [] \<and> mot_de_passe l \<noteq> [] \<longrightarrow>
        fst (sender_main env l opts None log) = 0)"
  by (auto simp: improve_csv_def improve_main_def process_csv_and_send_emails_def
        sender_main_def)

theorem C7_fichier_introuvable_witness:
  "2 \<le> length [''improve_csv.py'', ''absent.csv'']
   \<and> improve_main lib_simple [''improve_csv.py'', ''absent.csv''] (\<lambda>nom. None) = 2
   \<and> opt_cv_existe options_reel
   \<and> b_messages (process_csv_and_send_emails (env_envoi reponse_acme True) options_reel None None)
       = [FichierIntrouvable]
   \<and> dotenv_existe lancement_complet
   \<and> fst (sender_main (env_envoi reponse_acme True) lancement_complet options_reel None None) = 0"
proof -
  have cv: "opt_cv_existe options_reel"
    by (simp add: options_reel_def)
  have cfg: "dotenv_existe lancement_complet \<and> mistral_api_key lancement_complet \<noteq> []
      \<and> expediteur lancement_complet \<noteq> [] \<and> mot_de_passe lancement_complet \<noteq> []"
    by (simp add: lancement_complet_def)
  show ?thesis
    using C7_fichier_introuvable [of lib_simple "[''improve_csv.py'', ''absent.csv'']"
        "\<lambda>nom. None" options_reel "env_envoi reponse_acme True" None lancement_complet]
      cv cfg
    by simp
qed

text \<open>
  C7 as the claim states it. The script of the orchestrator ends with exit status 0 when
  the input file is missing, and \<open>improve_csv\<close> gives its caller the same value, and its
  script the same exit status 2, for a missing input file as for a generic processing
  error (here the \<open>AttributeError\<close> of an address column that holds a JSON array).
\<close>

theorem C7_signal_nul_ou_confondu:
  "fst (sender_main (env_envoi reponse_acme True) lancement_complet options_reel None None) = 0
   \<and> r_messages (improve_csv lib_simple (Some [ligne_tableau])) = [Erreur AttributeError]
   \<and> r_retour (improve_csv lib_simple None) = r_retour (improve_csv lib_simple (Some [ligne_tableau]))
   \<and> improve_main lib_simple [''improve_csv.py'', ''absent.csv''] (\<lambda>nom. None)
       = improve_main lib_simple [''improve_csv.py'', ''present.csv''] (\<lambda>nom. Some [ligne_tableau])"
  by code_simp

end
